theory Spec2Isabelle
  imports Main
begin

section \<open>JavaScript values shared by the models\<close>

text \<open>
  A JavaScript error object, with the properties the sources read: \<open>e.code\<close> (absent on
  a plain \<open>Error\<close>), \<open>e.message\<close>, \<open>e.path\<close> (set by the file system functions of Node)
  and \<open>e.cause\<close> with its own \<open>message\<close> (set by Bluebird's promisification on
  operational errors).
\<close>

record js_cause =
  cause_message :: "string option"

record js_error =
  err_code :: "string option"
  err_message :: string
  err_path :: "string option"
  err_cause :: "js_cause option"

text \<open>A settled promise: resolved with a value or rejected with an error.\<close>

datatype 'a promise = Resolved 'a | Rejected js_error

text \<open>
  The end of a command: its promise resolves, rejects, or the process is ended by
  \<open>process.exit(n)\<close>.
\<close>

datatype 'a outcome = Resolves 'a | Rejects js_error | Exits int

text \<open>Primitive values handed to the formatting functions of the command line.\<close>

datatype js_prim = Undefined | JString string | JNumber nat

text \<open>
  Truthiness of an optional string property: \<open>undefined\<close> and the empty string are falsy.
\<close>

fun truthy :: "string option \<Rightarrow> bool" where
  "truthy None = False"
| "truthy (Some s) = (s \<noteq> [])"

definition nl :: string where
  "nl = [CHR 0x0A]"

text \<open>
  \<open>Promise.map(xs, f)\<close> of Bluebird on an array of plain values whose mapper returns a
  promise: the mapper is called on every element, and the result resolves to the list of
  the values when all of them resolve. When some reject, the result rejects with the error
  of the first to do so; the model takes them in the order of the list.
\<close>

fun promise_all :: "'a promise list \<Rightarrow> 'a list promise" where
  "promise_all [] = Resolved []"
| "promise_all (Rejected e # ps) = Rejected e"
| "promise_all (Resolved v # ps) =
     (case promise_all ps of Rejected e \<Rightarrow> Rejected e | Resolved vs \<Rightarrow> Resolved (v # vs))"

text \<open>
  The library the name \<open>Promise\<close> of a module is bound to. A module that starts with
  \<open>const Promise = require('bluebird')\<close>, or takes it from \<open>lager\<close>, has Bluebird's; in a
  module without such a binding \<open>Promise\<close> is the global one, the built-in \<open>Promise\<close> of
  Node unless the global has been replaced. \<open>Promise.all\<close> and \<open>new Promise\<close> exist on
  both; \<open>Promise.map\<close> is a method of Bluebird only, and on the built-in \<open>Promise\<close> the
  call throws a \<open>TypeError\<close>.
\<close>

datatype promise_library = BuiltIn | Bluebird

definition promise_map :: "'a list \<Rightarrow> ('a \<Rightarrow> 'b promise) \<Rightarrow> 'b list promise" where
  "promise_map xs f = promise_all (map f xs)"



section \<open>Specification documents and the deep merge\<close>

text \<open>
  A specification fragment is what \<open>require\<close> gives for a \<open>spec\<close> file: a JSON document.
  A mapping is an association list in the order of its keys; numbers are only copied and
  compared, never computed with. \<open>JNonJson\<close> stands for a value that is no JSON document
  (an array object that carries named properties, an array with holes): the merge can
  produce one from JSON documents, and the model says nothing more about it.
\<close>

datatype jsval =
    JNull
  | JBool bool
  | JNum int
  | JStr string
  | JArr "jsval list"
  | JObj "(string \<times> jsval) list"
  | JNonJson

type_synonym document = "(string \<times> jsval) list"

text \<open>\<open>object[key] = value\<close>: an existing key keeps its place, a new key comes last.\<close>

fun assignValue :: "string \<Rightarrow> jsval \<Rightarrow> document \<Rightarrow> document" where
  "assignValue k v [] = [(k, v)]"
| "assignValue k v ((k', v') # ps) =
     (if k = k' then (k, v) # ps else (k', v') # assignValue k v ps)"

text \<open>
  lodash decides that the destination of an array is array-like by its \<open>length\<close> property:
  a number that is a whole number from 0 to \<open>2^53 - 1\<close>.
\<close>

definition isArrayLikeObject :: "document \<Rightarrow> bool" where
  "isArrayLikeObject obj =
     (case map_of obj ''length'' of
        Some (JNum n) \<Rightarrow> 0 \<le> n \<and> n \<le> 9007199254740991
      | _ \<Rightarrow> False)"

text \<open>
  \<open>_.merge(object, source)\<close> of lodash 4 (\<open>baseMerge\<close>, \<open>baseMergeDeep\<close> and
  \<open>assignMergeValue\<close>) on JSON documents; lodash is a dependency of the repository, and
  this is its documented behaviour: ``Array and plain object properties are merged
  recursively. Other objects and value types are overridden by assignment.''

  \<^item> \<open>mergeObject object source\<close> is \<open>baseMerge\<close> for a source mapping: every key of the
    source is merged into the destination in turn.
  \<^item> \<open>mergeValue objValue srcValue\<close> is the new value of one key, from the value the
    destination has for it (\<open>None\<close> when it has none) and the value of the source. A
    scalar of the source is assigned. A mapping of the source is merged into the mapping
    of the destination, and into a new mapping when the destination has a scalar or
    nothing. An array of the source is merged into the array of the destination, and into
    a new array when the destination has a scalar, nothing, or a mapping that is not
    array-like.
  \<^item> \<open>mergeArray objValue srcValue\<close> is \<open>baseMerge\<close> for a source array: its keys are
    its indices, so the element at index \<open>i\<close> of the source is merged into the element at
    index \<open>i\<close> of the destination, and the elements of the destination past the length of
    the source stay.

  Where a non-empty mapping is merged into an array (lodash writes the keys onto the
  array object) and where an array is merged into an array-like mapping (lodash copies
  the mapping to an array of its \<open>length\<close>, holes included), the result is no JSON
  document: \<open>JNonJson\<close>.
\<close>

fun mergeObject :: "document \<Rightarrow> document \<Rightarrow> document"
  and mergeValue :: "jsval option \<Rightarrow> jsval \<Rightarrow> jsval"
  and mergeArray :: "jsval list \<Rightarrow> jsval list \<Rightarrow> jsval list" where
  "mergeObject object [] = object"
| "mergeObject object ((key, srcValue) # source) =
     mergeObject (assignValue key (mergeValue (map_of object key) srcValue) object) source"
| "mergeValue objValue (JObj source) =
     (case objValue of
        Some (JObj object) \<Rightarrow> JObj (mergeObject object source)
      | Some (JArr object) \<Rightarrow> (if source = [] then JArr object else JNonJson)
      | Some JNonJson \<Rightarrow> JNonJson
      | _ \<Rightarrow> JObj (mergeObject [] source))"
| "mergeValue objValue (JArr source) =
     (case objValue of
        Some (JArr object) \<Rightarrow> JArr (mergeArray object source)
      | Some (JObj object) \<Rightarrow>
          (if isArrayLikeObject object then JNonJson else JArr (mergeArray [] source))
      | Some JNonJson \<Rightarrow> JNonJson
      | _ \<Rightarrow> JArr (mergeArray [] source))"
| "mergeValue objValue JNull = JNull"
| "mergeValue objValue (JBool b) = JBool b"
| "mergeValue objValue (JNum n) = JNum n"
| "mergeValue objValue (JStr s) = JStr s"
| "mergeValue objValue JNonJson = JNonJson"
| "mergeArray object [] = object"
| "mergeArray [] (srcValue # source) = mergeValue None srcValue # mergeArray [] source"
| "mergeArray (objValue # object) (srcValue # source) =
     mergeValue (Some objValue) srcValue # mergeArray object source"

text \<open>A JSON document proper: no \<open>JNonJson\<close> in it, and the keys of every mapping differ.\<close>

fun isJson :: "jsval \<Rightarrow> bool" where
  "isJson (JArr vs) = (\<forall>v \<in> set vs. isJson v)"
| "isJson (JObj ps) = (distinct (map fst ps) \<and> (\<forall>p \<in> set ps. isJson (snd p)))"
| "isJson JNonJson = False"
| "isJson v = True"

text \<open>Scalars: \<open>null\<close>, booleans, numbers and strings.\<close>

fun isScalar :: "jsval \<Rightarrow> bool" where
  "isScalar JNull = True"
| "isScalar (JBool b) = True"
| "isScalar (JNum n) = True"
| "isScalar (JStr s) = True"
| "isScalar v = False"


section \<open>Paths and strings of Node\<close>

text \<open>
  \<open>path.sep\<close> on POSIX. \<open>path_join a b\<close> is \<open>path.join(a, b)\<close> for a normalised directory
  \<open>a\<close> and a \<open>b\<close> that is empty or the name of an entry: Node also normalises \<open>.\<close>, \<open>..\<close>
  and repeated separators, which these paths do not have. \<open>path_basename\<close> is
  \<open>path.basename\<close> of a path that does not end with a separator.
\<close>

definition path_sep :: char where
  "path_sep = CHR ''/''"

definition path_join :: "string \<Rightarrow> string \<Rightarrow> string" where
  "path_join a b = (if b = [] then a else a @ path_sep # b)"

text \<open>\<open>s.split(c)\<close> for a separator of one character: never the empty array.\<close>

fun split :: "char \<Rightarrow> string \<Rightarrow> string list" where
  "split c [] = [[]]"
| "split c (x # xs) =
     (if x = c then [] # split c xs
      else (case split c xs of [] \<Rightarrow> [[x]] | part # parts \<Rightarrow> (x # part) # parts))"

text \<open>\<open>parts.join(c)\<close>.\<close>

fun join :: "char \<Rightarrow> string list \<Rightarrow> string" where
  "join c [] = []"
| "join c [part] = part"
| "join c (part # parts) = part @ c # join c parts"

definition path_basename :: "string \<Rightarrow> string" where
  "path_basename p = last (split path_sep p)"

text \<open>\<open>s.toUpperCase()\<close> on ASCII letters.\<close>

definition toUpperCase :: "string \<Rightarrow> string" where
  "toUpperCase s =
     map (\<lambda>c. let n = (of_char c :: nat) in if 97 \<le> n \<and> n \<le> 122 then char_of (n - 32) else c) s"


section \<open>mergeSpecsFiles\<close>

text \<open>
  What \<open>require(path)\<close> does for a \<open>spec\<close> file: it gives the document, or throws. A
  missing file throws an error with the code \<open>MODULE_NOT_FOUND\<close>; a file that cannot be
  parsed throws a \<open>SyntaxError\<close>, which has no code. \<open>_.cloneDeep\<close> copies the value, so
  that the merge never changes what \<open>require\<close> caches.
\<close>

datatype load = Loaded document | LoadFails js_error

text \<open>A synchronous function returns a value or throws.\<close>

datatype 'a result = Returns 'a | Throws js_error

definition typeError :: "string \<Rightarrow> js_error" where
  "typeError m = \<lparr>err_code = None, err_message = m, err_path = None, err_cause = None\<rparr>"

text \<open>
  The \<open>do ... while (subDirs.length)\<close> loop of \<open>mergeSpecsFiles\<close>, with the state it
  changes: the accumulator \<open>spec\<close>, \<open>searchSpecDir\<close> and the rest of \<open>subDirs\<close>. The body
  runs before the test, so an empty \<open>subDirs\<close> at the start would hand \<open>undefined\<close> to
  \<open>path.join\<close>, which throws a \<open>TypeError\<close>; \<open>split\<close> never returns the empty array, so
  \<open>mergeSpecsFiles\<close> does not get there.
\<close>

fun mergeLoop :: "(string \<Rightarrow> load) \<Rightarrow> document \<Rightarrow> string \<Rightarrow> string list \<Rightarrow> document result" where
  "mergeLoop require spec searchSpecDir0 [] = Throws (typeError ''Path must be a string. Received undefined'')"
| "mergeLoop require spec searchSpecDir0 (subDir # subDirs) =
     (let searchSpecDir = path_join searchSpecDir0 subDir
      in case require (searchSpecDir @ path_sep # ''spec'') of
           LoadFails e \<Rightarrow>
             (if err_code e \<noteq> Some ''MODULE_NOT_FOUND'' then Throws e
              else (let spec' = mergeObject spec []
                    in if subDirs \<noteq> [] then mergeLoop require spec' searchSpecDir subDirs
                       else Returns spec'))
         | Loaded subSpec \<Rightarrow>
             (let spec' = mergeObject spec subSpec
              in if subDirs \<noteq> [] then mergeLoop require spec' searchSpecDir subDirs
                 else Returns spec'))"

definition mergeSpecsFiles :: "(string \<Rightarrow> load) \<Rightarrow> string \<Rightarrow> string \<Rightarrow> document result" where
  "mergeSpecsFiles require beginPath subPath =
     mergeLoop require [] beginPath (split path_sep subPath)"

text \<open>
  For the statements about \<open>mergeSpecsFiles\<close>: the directories it looks into for the
  segments \<open>subDirs\<close>, from the one next to the root to the leaf, and the last of them for
  a sub-path.
\<close>

fun specDirs :: "string \<Rightarrow> string list \<Rightarrow> string list" where
  "specDirs dir [] = []"
| "specDirs dir (subDir # subDirs) =
     path_join dir subDir # specDirs (path_join dir subDir) subDirs"

definition leafDir :: "string \<Rightarrow> string \<Rightarrow> string" where
  "leafDir beginPath subPath = last (specDirs beginPath (split path_sep subPath))"

definition specFile :: "string \<Rightarrow> string" where
  "specFile dir = dir @ path_sep # ''spec''"

text \<open>Values for the examples of \<open>mergeSpecsFiles\<close>.\<close>

definition moduleNotFound :: js_error where
  "moduleNotFound =
     \<lparr>err_code = Some ''MODULE_NOT_FOUND'', err_message = ''Cannot find module'',
      err_path = None, err_cause = None\<rparr>"

definition syntaxError :: js_error where
  "syntaxError =
     \<lparr>err_code = None, err_message = ''Unexpected token } in JSON'',
      err_path = None, err_cause = None\<rparr>"

text \<open>
  \<open>/project/endpoints/users/spec\<close> and \<open>/project/endpoints/users/GET/spec\<close>: the two
  levels share the scalar \<open>summary\<close>, the mapping \<open>x-lager\<close> and the array \<open>tags\<close>.
\<close>

definition users_spec :: document where
  "users_spec =
     [(''summary'', JStr ''users''),
      (''x-lager'', JObj [(''apis'', JArr [JStr ''public''])]),
      (''tags'', JArr [JStr ''a'', JStr ''b'', JStr ''c''])]"

definition users_GET_spec :: document where
  "users_GET_spec =
     [(''summary'', JStr ''list the users''),
      (''x-lager'', JObj [(''lambda'', JStr ''list-users'')]),
      (''tags'', JArr [JStr ''x'']),
      (''produce'', JArr [JStr ''application/json''])]"

definition two_levels :: "string \<Rightarrow> load" where
  "two_levels p =
     (if p = ''/project/endpoints/users/spec'' then Loaded users_spec
      else if p = ''/project/endpoints/users/GET/spec'' then Loaded users_GET_spec
      else LoadFails moduleNotFound)"

definition no_fragments :: "string \<Rightarrow> load" where
  "no_fragments p = LoadFails moduleNotFound"


section \<open>The hook bus\<close>

text \<open>
  \<open>src/lib/lager.js\<close>. A hook takes the arguments of the event and returns the promise of
  an array of arguments (\<open>fire\<close> reads it with \<open>.spread\<close>). A plugin may have no \<open>hooks\<close>
  at all, and its \<open>hooks\<close> may lack the event.
\<close>

type_synonym 'v hook = "'v list \<Rightarrow> 'v list promise"

record 'v plugin =
  plugin_name :: string
  plugin_hooks :: "(string \<Rightarrow> 'v hook option) option"

text \<open>\<open>this.plugins[i].hooks && this.plugins[i].hooks[eventName]\<close>.\<close>

definition hookOf :: "'v plugin \<Rightarrow> string \<Rightarrow> 'v hook option" where
  "hookOf p eventName =
     (case plugin_hooks p of None \<Rightarrow> None | Some hooks \<Rightarrow> hooks eventName)"

text \<open>
  The recursive function inside \<open>fire\<close>: \<open>this.plugins[i]\<close> is \<open>undefined\<close> past the end of
  the array, which ends the recursion with the promise of the arguments.
\<close>

function callPluginsSequencialy ::
  "'v plugin list \<Rightarrow> string \<Rightarrow> nat \<Rightarrow> 'v list \<Rightarrow> 'v list promise" where
  "callPluginsSequencialy plugins eventName i args =
     (if \<not> i < length plugins then Resolved args
      else (case hookOf (plugins ! i) eventName of
              Some hook \<Rightarrow>
                (case hook args of
                   Rejected e \<Rightarrow> Rejected e
                 | Resolved arguments \<Rightarrow> callPluginsSequencialy plugins eventName (i + 1) arguments)
            | None \<Rightarrow> callPluginsSequencialy plugins eventName (i + 1) args))"
  by pat_completeness auto
termination
  by (relation "measure (\<lambda>(plugins, eventName, i, args). length plugins - i)") auto

declare callPluginsSequencialy.simps [simp del]

definition fire :: "'v plugin list \<Rightarrow> string \<Rightarrow> 'v list \<Rightarrow> 'v list promise" where
  "fire plugins eventName args = callPluginsSequencialy plugins eventName 0 args"

text \<open>
  The bus as the specification words it: the hooks of the plugins that implement the
  event, in the order of registration, each called with the arguments the one before it
  resolved to. A hook that rejects ends the chain with its error.
\<close>

definition implementations :: "'v plugin list \<Rightarrow> string \<Rightarrow> 'v hook list" where
  "implementations plugins eventName = List.map_filter (\<lambda>p. hookOf p eventName) plugins"

fun threadArguments :: "'v hook list \<Rightarrow> 'v list \<Rightarrow> 'v list promise" where
  "threadArguments [] args = Resolved args"
| "threadArguments (hook # hooks) args =
     (case hook args of
        Rejected e \<Rightarrow> Rejected e
      | Resolved arguments \<Rightarrow> threadArguments hooks arguments)"

text \<open>
  Values for the examples of the bus: a plugin without hooks, one whose hook replaces the
  second argument, and one whose hook copies the second argument over the third.
\<close>

definition silent_plugin :: "string plugin" where
  "silent_plugin = \<lparr>plugin_name = ''silent'', plugin_hooks = None\<rparr>"

definition replacing_plugin :: "string plugin" where
  "replacing_plugin =
     \<lparr>plugin_name = ''replacing'',
      plugin_hooks = Some (\<lambda>eventName.
        if eventName = ''afterApiLoad''
        then Some (\<lambda>args. Resolved (args [1 := ''replaced'']))
        else None)\<rparr>"

definition copying_plugin :: "string plugin" where
  "copying_plugin =
     \<lparr>plugin_name = ''copying'',
      plugin_hooks = Some (\<lambda>eventName.
        if eventName = ''afterApiLoad''
        then Some (\<lambda>args. Resolved (args [2 := args ! 1]))
        else None)\<rparr>"


section \<open>Loading the APIs and the endpoints\<close>

text \<open>
  The loaders of the api-gateway plugin (\<open>loadApis\<close>, \<open>loadApi\<close>, \<open>loadEndpoints\<close>,
  \<open>loadEndpoint\<close>). The values that travel through the hooks of these functions:
  \<open>undefined\<close>, strings, endpoints, APIs and arrays of them. The classes \<open>Endpoint\<close> and
  \<open>Api\<close> are not among the sources; their constructors are parameters, and \<open>'e\<close> and \<open>'a\<close>
  are the types of their objects.
\<close>

datatype ('e, 'a) hookval =
    HUndefined
  | HString string
  | HEndpoint 'e
  | HApi 'a
  | HArray "('e, 'a) hookval list"

text \<open>
  The part of the file system the loaders read: the entries of a directory, by name, in
  the order \<open>readdir\<close> lists them.
\<close>

datatype fsnode = File | Dir "(string \<times> fsnode) list"

text \<open>
  What the module works in: the plugins registered on \<open>lager\<close>, \<open>process.cwd()\<close>, the
  entries of that directory, \<open>require\<close> on a \<open>spec\<close> file, and the two constructors.
\<close>

record ('e, 'a) gateway =
  lager_plugins :: "('e, 'a) hookval plugin list"
  process_cwd :: string
  project :: "(string \<times> fsnode) list"
  require_spec :: "string \<Rightarrow> load"
  newEndpoint :: "document \<Rightarrow> string \<Rightarrow> string \<Rightarrow> 'e"
  newApi :: "document \<Rightarrow> 'a"

text \<open>The errors of Node's \<open>fs\<close> for a missing path and for a path that is no directory.\<close>

definition enoent :: "string \<Rightarrow> js_error" where
  "enoent p =
     \<lparr>err_code = Some ''ENOENT'', err_message = ''ENOENT: no such file or directory'',
      err_path = Some p, err_cause = None\<rparr>"

definition enotdir :: "string \<Rightarrow> js_error" where
  "enotdir p =
     \<lparr>err_code = Some ''ENOTDIR'', err_message = ''ENOTDIR: not a directory'',
      err_path = Some p, err_cause = None\<rparr>"

text \<open>\<open>fs.readdirAsync(path.join(process.cwd(), name))\<close>.\<close>

definition readdirAsync :: "(string \<times> fsnode) list \<Rightarrow> string \<Rightarrow> string \<Rightarrow> string list promise" where
  "readdirAsync entries name p =
     (case map_of entries name of
        None \<Rightarrow> Rejected (enoent p)
      | Some File \<Rightarrow> Rejected (enotdir p)
      | Some (Dir sub) \<Rightarrow> Resolved (map fst sub))"

text \<open>
  \<open>file.walkSync(start, callback)\<close> of the package \<open>file\<close>: it throws when \<open>start\<close> is
  missing (\<open>fs.statSync\<close>) or no directory, and else calls the callback on \<open>start\<close> and
  then walks the sub-directories in turn. \<open>walkDir\<close> gives the directories in the order of
  the calls.
\<close>

fun walkDir :: "string \<Rightarrow> (string \<times> fsnode) list \<Rightarrow> string list"
  and walkEntries :: "string \<Rightarrow> (string \<times> fsnode) list \<Rightarrow> string list" where
  "walkDir start entries = start # walkEntries start entries"
| "walkEntries start [] = []"
| "walkEntries start ((name, File) # entries) = walkEntries start entries"
| "walkEntries start ((name, Dir sub) # entries) =
     walkDir (path_join start name) sub @ walkEntries start entries"

definition walkSync :: "fsnode option \<Rightarrow> string \<Rightarrow> string list result" where
  "walkSync node start =
     (case node of
        None \<Rightarrow> Throws (enoent start)
      | Some File \<Rightarrow>
          Throws \<lparr>err_code = None, err_message = ''path: '' @ start @ '' is not a directory'',
                  err_path = None, err_cause = None\<rparr>
      | Some (Dir entries) \<Rightarrow> Returns (walkDir start entries))"

text \<open>\<open>.spread(x => ...)\<close> on the arguments a hook chain resolved to.\<close>

definition argument :: "('e, 'a) hookval list \<Rightarrow> nat \<Rightarrow> ('e, 'a) hookval" where
  "argument args i = (if i < length args then args ! i else HUndefined)"

text \<open>
  \<open>loadEndpoint(endpointSpecRootPath, resourcePath, method)\<close>. An error thrown by
  \<open>mergeSpecsFiles\<close> inside the \<open>.spread\<close> handler rejects the promise.
\<close>

definition loadEndpoint ::
  "('e, 'a) gateway \<Rightarrow> string \<Rightarrow> string \<Rightarrow> string \<Rightarrow> ('e, 'a) hookval promise" where
  "loadEndpoint env endpointSpecRootPath resourcePath method0 =
     (let method = toUpperCase method0
      in case fire (lager_plugins env) ''beforeEndpointLoad'' [] of
           Rejected e \<Rightarrow> Rejected e
         | Resolved none \<Rightarrow>
             (let parts = split CHR ''/'' resourcePath;
                  subPath = join path_sep parts @ path_sep # method
              in case mergeSpecsFiles (require_spec env) endpointSpecRootPath subPath of
                   Throws e \<Rightarrow> Rejected e
                 | Returns spec \<Rightarrow>
                     (case fire (lager_plugins env) ''afterEndpointLoad''
                             [HEndpoint (newEndpoint env spec resourcePath method)] of
                        Rejected e \<Rightarrow> Rejected e
                      | Resolved args \<Rightarrow> Resolved (argument args 0))))"

text \<open>
  The callback of the walk in \<open>loadEndpoints\<close>: for a directory it gives the resource
  path and the method \<open>loadEndpoint\<close> is called with, or nothing when the last segment of
  the directory is not in the list of the methods.
\<close>

definition endpointOfDirectory :: "string \<Rightarrow> string \<Rightarrow> (string \<times> string) option" where
  "endpointOfDirectory endpointSpecsPath dirPath =
     (let subPath = drop (length endpointSpecsPath) dirPath;
          resourcePathParts = split path_sep subPath;
          method = last resourcePathParts
      in if method \<notin> set [''GET'', ''POST'', ''PUT'', ''PATCH'', ''DELETE''] then None
         else Some (join CHR ''/'' (butlast resourcePathParts), method))"

text \<open>
  The \<open>catch\<close> at the end of \<open>loadEndpoints\<close>. Its last statement is \<open>Promise.reject(e);\<close>
  without \<open>return\<close>: the rejected promise is dropped and the handler returns \<open>undefined\<close>.
  \<open>path.basename(e.path)\<close> throws a \<open>TypeError\<close> when the error has no path.
\<close>

definition onLoadEndpointsRejected :: "string \<Rightarrow> js_error \<Rightarrow> ('e, 'a) hookval promise" where
  "onLoadEndpointsRejected endpointsDirectory e =
     (if err_code e = Some ''ENOENT''
      then (case err_path e of
              None \<Rightarrow> Rejected (typeError ''Path must be a string. Received undefined'')
            | Some p \<Rightarrow>
                if path_basename p = endpointsDirectory then Resolved (HArray [])
                else Resolved HUndefined)
      else Resolved HUndefined)"

definition loadEndpoints :: "('e, 'a) gateway \<Rightarrow> ('e, 'a) hookval promise" where
  "loadEndpoints env =
     (let endpointsDirectory = ''endpoints'';
          endpointSpecsPath = path_join (process_cwd env) endpointsDirectory;
          chain =
            (case fire (lager_plugins env) ''beforeEndpointsLoad'' [] of
               Rejected e \<Rightarrow> Rejected e
             | Resolved none \<Rightarrow>
                 (case walkSync (map_of (project env) endpointsDirectory) endpointSpecsPath of
                    Throws e \<Rightarrow> Rejected e
                  | Returns dirPaths \<Rightarrow>
                      (case promise_all
                              (map (\<lambda>(resourcePath, method).
                                      loadEndpoint env endpointSpecsPath resourcePath method)
                                 (List.map_filter (endpointOfDirectory endpointSpecsPath) dirPaths)) of
                         Rejected e \<Rightarrow> Rejected e
                       | Resolved endpoints \<Rightarrow>
                           (case fire (lager_plugins env) ''afterEndpointsLoad'' [HArray endpoints] of
                              Rejected e \<Rightarrow> Rejected e
                            | Resolved args \<Rightarrow> Resolved (argument args 0)))))
      in case chain of
           Resolved endpoints \<Rightarrow> Resolved endpoints
         | Rejected e \<Rightarrow> onLoadEndpointsRejected endpointsDirectory e)"

text \<open>Truthiness of a document value: objects and arrays are truthy.\<close>

fun jsTruthy :: "jsval \<Rightarrow> bool" where
  "jsTruthy JNull = False"
| "jsTruthy (JBool b) = b"
| "jsTruthy (JNum n) = (n \<noteq> 0)"
| "jsTruthy (JStr s) = (s \<noteq> [])"
| "jsTruthy v = True"

text \<open>
  The two assignments of \<open>loadApi\<close> on the specification it loaded:
  \<open>apiSpec['x-lager'] = apiSpec['x-lager'] || {}\<close> and
  \<open>apiSpec['x-lager'].identifier = apiSpec['x-lager'].identifier || identifier\<close>. The file
  is in strict mode, so the second one throws a \<open>TypeError\<close> when \<open>x-lager\<close> is a truthy
  scalar. An \<open>identifier\<close> that is \<open>undefined\<close> leaves a property that JSON does not show.
\<close>

definition withIdentifier :: "document \<Rightarrow> ('e, 'a) hookval \<Rightarrow> document result" where
  "withIdentifier apiSpec identifier =
     (let xLager = (case map_of apiSpec ''x-lager'' of
                      None \<Rightarrow> JObj []
                    | Some v \<Rightarrow> if jsTruthy v then v else JObj [])
      in case xLager of
           JObj props \<Rightarrow>
             (let current = map_of props ''identifier'';
                  kept = (case current of None \<Rightarrow> False | Some v \<Rightarrow> jsTruthy v);
                  props' =
                    (if kept then props
                     else (case identifier of
                             HString s \<Rightarrow> assignValue ''identifier'' (JStr s) props
                           | HUndefined \<Rightarrow> filter (\<lambda>p. fst p \<noteq> ''identifier'') props
                           | other \<Rightarrow> assignValue ''identifier'' JNonJson props))
              in Returns (assignValue ''x-lager'' (JObj props') apiSpec))
         | JArr items \<Rightarrow> Returns (assignValue ''x-lager'' JNonJson apiSpec)
         | JNonJson \<Rightarrow> Returns (assignValue ''x-lager'' JNonJson apiSpec)
         | scalar \<Rightarrow> Throws (typeError ''Cannot create property identifier''))"

text \<open>
  \<open>loadApi(apiSpecPath, identifier)\<close>. The hooks of \<open>beforeApiLoad\<close> may replace both
  arguments; \<open>require\<close> of a value that is no string throws.
\<close>

definition loadApi :: "('e, 'a) gateway \<Rightarrow> string \<Rightarrow> string \<Rightarrow> ('e, 'a) hookval promise" where
  "loadApi env apiSpecPath0 identifier0 =
     (case fire (lager_plugins env) ''beforeApiLoad'' [HString apiSpecPath0, HString identifier0] of
        Rejected e \<Rightarrow> Rejected e
      | Resolved args \<Rightarrow>
          (case argument args 0 of
             HString apiSpecPath \<Rightarrow>
               (case require_spec env apiSpecPath of
                  LoadFails e \<Rightarrow> Rejected e
                | Loaded apiSpec \<Rightarrow>
                    (case withIdentifier apiSpec (argument args 1) of
                       Throws e \<Rightarrow> Rejected e
                     | Returns apiSpec' \<Rightarrow>
                         (case fire (lager_plugins env) ''afterApiLoad'' [HApi (newApi env apiSpec')] of
                            Rejected e \<Rightarrow> Rejected e
                          | Resolved args' \<Rightarrow> Resolved (argument args' 0))))
           | other \<Rightarrow> Rejected (typeError ''path must be a string'')))"

text \<open>The \<open>catch\<close> at the end of \<open>loadApis\<close>: it returns \<open>Promise.reject(e)\<close>.\<close>

definition onLoadApisRejected :: "js_error \<Rightarrow> ('e, 'a) hookval promise" where
  "onLoadApisRejected e =
     (if err_code e = Some ''ENOENT''
      then (case err_path e of
              None \<Rightarrow> Rejected (typeError ''Path must be a string. Received undefined'')
            | Some p \<Rightarrow>
                if path_basename p = ''apis'' then Resolved (HArray [])
                else Rejected e)
      else Rejected e)"

definition loadApis :: "('e, 'a) gateway \<Rightarrow> ('e, 'a) hookval promise" where
  "loadApis env =
     (let apiSpecsPath = path_join (process_cwd env) ''apis'';
          chain =
            (case fire (lager_plugins env) ''beforeApisLoad'' [] of
               Rejected e \<Rightarrow> Rejected e
             | Resolved none \<Rightarrow>
                 (case readdirAsync (project env) ''apis'' apiSpecsPath of
                    Rejected e \<Rightarrow> Rejected e
                  | Resolved subdirs \<Rightarrow>
                      (case promise_all
                              (map (\<lambda>subdir.
                                      loadApi env
                                        (path_join (path_join apiSpecsPath subdir) ''spec'') subdir)
                                 subdirs) of
                         Rejected e \<Rightarrow> Rejected e
                       | Resolved apis \<Rightarrow>
                           (case fire (lager_plugins env) ''afterApisLoad'' [HArray apis] of
                              Rejected e \<Rightarrow> Rejected e
                            | Resolved args \<Rightarrow> Resolved (argument args 0)))))
      in case chain of
           Resolved apis \<Rightarrow> Resolved apis
         | Rejected e \<Rightarrow> onLoadApisRejected e)"

text \<open>
  For the statements about the walk: the directories below the root of a tree, each as
  the list of the names that lead to it, in the order of the walk; and the path of such a
  directory.
\<close>

fun subdirectories :: "(string \<times> fsnode) list \<Rightarrow> string list list" where
  "subdirectories [] = []"
| "subdirectories ((name, File) # entries) = subdirectories entries"
| "subdirectories ((name, Dir sub) # entries) =
     [name] # map ((#) name) (subdirectories sub) @ subdirectories entries"

definition below :: "string \<Rightarrow> string list \<Rightarrow> string" where
  "below root segments = root @ concat (map ((#) path_sep) segments)"

text \<open>A name of a directory entry: not empty, and without the separator.\<close>

definition entryName :: "string \<Rightarrow> bool" where
  "entryName name = (name \<noteq> [] \<and> path_sep \<notin> set name)"

text \<open>The specification \<open>loadEndpoint\<close> builds an endpoint from (empty when the merge throws).\<close>

definition specOf :: "('e, 'a) gateway \<Rightarrow> string \<Rightarrow> string \<Rightarrow> document" where
  "specOf env root subPath =
     (case mergeSpecsFiles (require_spec env) root subPath of Returns spec \<Rightarrow> spec | Throws e \<Rightarrow> [])"

text \<open>
  Values for the examples of the loaders. Endpoints and APIs are the tuples of the
  arguments of their constructors. The project has \<open>endpoints/users/GET\<close>,
  \<open>endpoints/users/OPTIONS\<close> and \<open>endpoints/users/{id}/DELETE\<close>, and no \<open>apis\<close> directory.
\<close>

definition users_endpoints :: "(string \<times> fsnode) list" where
  "users_endpoints =
     [(''users'',
         Dir [(''spec.json'', File),
              (''GET'', Dir [(''spec.json'', File)]),
              (''OPTIONS'', Dir [(''spec.json'', File)]),
              (''{id}'', Dir [(''DELETE'', Dir [])])])]"

definition users_project :: "(string \<times> fsnode) list" where
  "users_project = [(''package.json'', File), (''endpoints'', Dir users_endpoints)]"

definition users_gateway :: "(document \<times> string \<times> string, document) gateway" where
  "users_gateway =
     \<lparr>lager_plugins = [], process_cwd = ''/project'', project = users_project,
      require_spec = two_levels,
      newEndpoint = (\<lambda>spec resourcePath method. (spec, resourcePath, method)),
      newApi = (\<lambda>spec. spec)\<rparr>"

text \<open>The same project with a \<open>users/GET/spec.json\<close> that does not parse.\<close>

definition malformed_spec :: "string \<Rightarrow> load" where
  "malformed_spec p =
     (if p = ''/project/endpoints/users/GET/spec'' then LoadFails syntaxError
      else LoadFails moduleNotFound)"

definition malformed_gateway :: "(document \<times> string \<times> string, document) gateway" where
  "malformed_gateway = users_gateway\<lparr>require_spec := malformed_spec\<rparr>"

text \<open>
  The same project as a run of the command line has it: the api-gateway plugin itself is
  registered, with its hook for \<open>registerCommands\<close>; and the directory \<open>users/OPTIONS\<close>
  holds a \<open>spec.json\<close> that does not parse.
\<close>

definition api_gateway_plugin :: "('e, 'a) hookval plugin" where
  "api_gateway_plugin =
     \<lparr>plugin_name = ''api-gateway'',
      plugin_hooks = Some (\<lambda>eventName.
        if eventName = ''registerCommands'' then Some (\<lambda>args. Resolved []) else None)\<rparr>"

definition malformed_OPTIONS_spec :: "string \<Rightarrow> load" where
  "malformed_OPTIONS_spec p =
     (if p = ''/project/endpoints/users/OPTIONS/spec'' then LoadFails syntaxError
      else two_levels p)"

definition cli_gateway :: "(document \<times> string \<times> string, document) gateway" where
  "cli_gateway =
     users_gateway\<lparr>lager_plugins := [api_gateway_plugin], require_spec := malformed_OPTIONS_spec\<rparr>"

text \<open>A project with neither \<open>apis\<close> nor \<open>endpoints\<close>.\<close>

definition empty_gateway :: "(document \<times> string \<times> string, document) gateway" where
  "empty_gateway = users_gateway\<lparr>project := [(''package.json'', File)]\<rparr>"

text \<open>The root of the endpoints, \<open>endpointSpecsPath\<close> in \<open>loadEndpoints\<close>.\<close>

definition endpointsRoot :: "('e, 'a) gateway \<Rightarrow> string" where
  "endpointsRoot env = path_join (process_cwd env) ''endpoints''"


section \<open>The deploy-lambdas command\<close>

text \<open>
  \<open>packages/lambda/src/cli/deploy-lambdas.js\<close>, \<open>executeCommand\<close>. The collaborators that
  are not part of the file are parameters: the formatting functions of \<open>icli\<close>, the
  configuration read by \<open>plugin.lager.getConfig\<close>, \<open>plugin.loadLambdas\<close>, the deployment
  of one Lambda and \<open>genReportsTable\<close>. The first component of the result is what
  \<open>icli.print\<close> wrote, one entry per call.

  The module has no binding of \<open>Promise\<close>: it requires only \<open>lodash\<close>,
  \<open>../tools/generate-reports-table\<close> and the plugin, unlike \<open>lambda.js\<close> and
  \<open>create-lambda.js\<close> of the same package, which start with
  \<open>const Promise = require('bluebird')\<close>. So \<open>Promise\<close> in it is the global one, and the
  library the global is bound to is a parameter of the model.
\<close>

record icli_format =
  format_info :: "js_prim \<Rightarrow> string"
  format_error :: "string \<Rightarrow> string"

record deploy_lambdas_parameters =
  lambdaIdentifiers :: "string list"
  cli_region :: string
  cli_environment :: "string option"
  cli_stage :: "string option"

text \<open>The \<open>context\<close> object handed to \<open>lambda.deploy\<close>.\<close>

record deploy_context =
  ctx_environment :: "string option"
  ctx_stage :: "string option"

definition opt_prim :: "string option \<Rightarrow> js_prim" where
  "opt_prim v = (case v of None \<Rightarrow> Undefined | Some s \<Rightarrow> JString s)"

text \<open>
  The first two lines of \<open>executeCommand\<close>: a parameter left \<open>undefined\<close> is read from the
  configuration.
\<close>

definition withConfigDefaults ::
  "(string \<Rightarrow> string option) \<Rightarrow> deploy_lambdas_parameters \<Rightarrow> deploy_lambdas_parameters" where
  "withConfigDefaults getConfig parameters =
     (let parameters1 =
            (if cli_environment parameters = None
             then parameters\<lparr>cli_environment := getConfig ''environment''\<rparr> else parameters)
      in if cli_stage parameters1 = None
         then parameters1\<lparr>cli_stage := getConfig ''stage''\<rparr> else parameters1)"

text \<open>
  The test of the \<open>catch\<close> handler:
  \<open>e.code === 'AccessDeniedException' && e.cause && e.cause.message\<close>.
\<close>

definition isAccessDenied :: "js_error \<Rightarrow> bool" where
  "isAccessDenied e =
     (err_code e = Some ''AccessDeniedException'' \<and>
      (case err_cause e of None \<Rightarrow> False | Some c \<Rightarrow> truthy (cause_message c)))"

text \<open>The four lines the handler prints before it ends the process.\<close>

definition permissionsExplanation :: "icli_format \<Rightarrow> js_error \<Rightarrow> string list" where
  "permissionsExplanation icli e =
     [nl @ ''    '' @ format_error icli (''Insufficient permissions to perform the action'' @ nl),
      ''The IAM user/role you are using to perform this action does not have sufficient permissions.'' @ nl,
      (case err_cause e of
         Some c \<Rightarrow> (case cause_message c of Some m \<Rightarrow> m | None \<Rightarrow> ''undefined'')
       | None \<Rightarrow> ''undefined'') @ nl,
      ''Please update the policies of the user/role before trying again.'' @ nl]"

text \<open>The \<open>catch\<close> handler at the end of the chain.\<close>

definition onDeployRejected :: "icli_format \<Rightarrow> js_error \<Rightarrow> string list \<times> unit outcome" where
  "onDeployRejected icli e =
     (if isAccessDenied e then (permissionsExplanation icli e, Exits 1)
      else ([], Rejects e))"

text \<open>
  The chain before the \<open>catch\<close>: load the Lambdas, keep the selected ones (the array
  \<open>parameters.lambdaIdentifiers\<close> is truthy, also when empty), deploy them with
  \<open>Promise.map\<close>, print the table of the reports. A Lambda is a pair of its identifier
  and the object itself. With the built-in \<open>Promise\<close> the call of \<open>Promise.map\<close> throws
  inside the \<open>.then\<close> handler, before any Lambda is deployed, and the chain rejects with
  the \<open>TypeError\<close>.
\<close>

definition deploySelected ::
  "promise_library \<Rightarrow> deploy_lambdas_parameters \<Rightarrow> (string \<times> 'l) list promise \<Rightarrow>
   (string \<Rightarrow> deploy_context \<Rightarrow> 'l \<Rightarrow> 'r promise) \<Rightarrow> ('r list \<Rightarrow> string) \<Rightarrow>
   string list \<times> unit promise" where
  "deploySelected Promise parameters loadLambdas deploy genReportsTable =
     (case loadLambdas of
        Rejected e \<Rightarrow> ([], Rejected e)
      | Resolved lambdas \<Rightarrow>
          (let selected = filter (\<lambda>l. fst l \<in> set (lambdaIdentifiers parameters)) lambdas;
               context = \<lparr>ctx_environment = cli_environment parameters, ctx_stage = cli_stage parameters\<rparr>
           in case Promise of
                BuiltIn \<Rightarrow> ([], Rejected (typeError ''Promise.map is not a function''))
              | Bluebird \<Rightarrow>
                  (case promise_map selected (\<lambda>l. deploy (cli_region parameters) context (snd l)) of
                     Rejected e \<Rightarrow> ([], Rejected e)
                   | Resolved reports \<Rightarrow> ([genReportsTable reports], Resolved ()))))"

definition deployBanner :: "icli_format \<Rightarrow> deploy_lambdas_parameters \<Rightarrow> string list" where
  "deployBanner icli parameters =
     ['''',
      ''Deploying '' @ format_info icli (JNumber (length (lambdaIdentifiers parameters))) @ '' Lambda(s):'',
      ''  AWS region: '' @ format_info icli (JString (cli_region parameters)),
      ''  Lager environement (prefix for Lambdas names): '' @ format_info icli (opt_prim (cli_environment parameters)),
      ''  Lager stage (used as Lambda alias): '' @ format_info icli (opt_prim (cli_stage parameters)),
      '''',
      ''This operation may last a little'']"

definition deployLambdas_executeCommand ::
  "promise_library \<Rightarrow> icli_format \<Rightarrow> (string \<Rightarrow> string option) \<Rightarrow>
   deploy_lambdas_parameters \<Rightarrow> (string \<times> 'l) list promise \<Rightarrow>
   (string \<Rightarrow> deploy_context \<Rightarrow> 'l \<Rightarrow> 'r promise) \<Rightarrow> ('r list \<Rightarrow> string) \<Rightarrow>
   string list \<times> unit outcome" where
  "deployLambdas_executeCommand Promise icli getConfig parameters0 loadLambdas deploy genReportsTable =
     (let parameters = withConfigDefaults getConfig parameters0;
          banner = deployBanner icli parameters
      in case deploySelected Promise parameters loadLambdas deploy genReportsTable of
           (out, Resolved u) \<Rightarrow> (banner @ out, Resolves u)
         | (out, Rejected e) \<Rightarrow>
             (case onDeployRejected icli e of (msgs, res) \<Rightarrow> (banner @ out @ msgs, res)))"

text \<open>
  Values for the examples of the deploy-lambdas command: formatting functions that add no
  colour (a number is shown by its decimal digits), the parameters of a command that
  selects one Lambda, and two errors of the provider.
\<close>

fun decimal :: "nat \<Rightarrow> string" where
  "decimal n =
     (if n < 10 then [''0123456789'' ! n]
      else decimal (n div 10) @ [''0123456789'' ! (n mod 10)])"

declare decimal.simps [simp del]

definition plain_icli :: icli_format where
  "plain_icli =
     \<lparr>format_info = (\<lambda>v. case v of JString s \<Rightarrow> s | JNumber n \<Rightarrow> decimal n | Undefined \<Rightarrow> ''undefined''),
      format_error = (\<lambda>s. s)\<rparr>"

definition one_lambda_parameters :: deploy_lambdas_parameters where
  "one_lambda_parameters =
     \<lparr>lambdaIdentifiers = [''my-lambda''], cli_region = ''us-east-1'',
      cli_environment = Some ''DEV'', cli_stage = Some ''v0''\<rparr>"

definition access_denied_error :: js_error where
  "access_denied_error =
     \<lparr>err_code = Some ''AccessDeniedException'', err_message = ''denied'', err_path = None,
      err_cause = Some \<lparr>cause_message = Some ''User is not authorized to perform: lambda:GetFunction''\<rparr>\<rparr>"

definition throttling_error :: js_error where
  "throttling_error =
     \<lparr>err_code = Some ''ThrottlingException'', err_message = ''slow down'', err_path = None,
      err_cause = Some \<lparr>cause_message = Some ''Rate exceeded''\<rparr>\<rparr>"


section \<open>Deploying a Lambda\<close>

text \<open>
  \<open>packages/lambda/src/lambda.js\<close>: \<open>Lambda.prototype.deploy\<close>, \<open>isDeployed\<close>, \<open>create\<close>, \<open>update\<close>,
  \<open>setAlias\<close> and \<open>aliasExists\<close>. A Lambda holds its identifier and the parameters of its
  configuration that the deployment reads.
\<close>

record lambda_params =
  FunctionName :: string
  Role :: string
  Publish :: bool

record lambda =
  lambda_identifier :: string
  lambda_params :: lambda_params

text \<open>What the provider answers with: the configuration of a function, or of an alias.\<close>

record function_configuration =
  FunctionArn :: string
  Version :: string

record alias_configuration =
  AliasArn :: string
  FunctionVersion :: string

text \<open>
  The collaborators of a deployment: the client of the provider (each method answers with
  its data or with an error; the parameters of \<open>createFunction\<close> and
  \<open>updateFunctionConfiguration\<close> are those of the Lambda with the role resolved, \<open>Code\<close>
  added and \<open>Publish\<close> deleted as the source does), the build of the package and the
  resolution of the role.
  \<open>'b\<close> is the type of the package. Within one deployment each of them is called at most
  once.
\<close>

record 'b aws_lambda =
  getFunction :: "string \<Rightarrow> function_configuration promise"
  createFunction :: "lambda_params \<Rightarrow> 'b \<Rightarrow> function_configuration promise"
  updateFunctionCode :: "string \<Rightarrow> bool \<Rightarrow> 'b \<Rightarrow> function_configuration promise"
  updateFunctionConfiguration :: "lambda_params \<Rightarrow> function_configuration promise"
  publishVersion :: "string \<Rightarrow> function_configuration promise"
  getAlias :: "string \<Rightarrow> string \<Rightarrow> alias_configuration promise"
  createAlias :: "string \<Rightarrow> string \<Rightarrow> string \<Rightarrow> alias_configuration promise"
  updateAlias :: "string \<Rightarrow> string \<Rightarrow> string \<Rightarrow> alias_configuration promise"
  buildPackage :: "lambda \<Rightarrow> 'b promise"
  retrieveRoleArn :: "string \<Rightarrow> deploy_context \<Rightarrow> string promise"

text \<open>The requests sent to the provider, in the order they are sent.\<close>

datatype aws_call =
    GetFunction string
  | CreateFunction string
  | UpdateFunctionCode string
  | UpdateFunctionConfiguration string
  | PublishVersion string
  | GetAlias string string
  | CreateAlias string string string
  | UpdateAlias string string string

type_synonym 'a traced = "aws_call list \<times> 'a promise"

text \<open>\<open>p.then(f)\<close>, with the requests of both parts.\<close>

definition andThen :: "'a traced \<Rightarrow> ('a \<Rightarrow> 'c traced) \<Rightarrow> 'c traced" where
  "andThen p f =
     (case p of
        (calls, Rejected e) \<Rightarrow> (calls, Rejected e)
      | (calls, Resolved v) \<Rightarrow> (case f v of (calls', r) \<Rightarrow> (calls @ calls', r)))"

text \<open>
  \<open>Promise.all([p, q])\<close>: both are started; it rejects with the error of the one that
  rejects (with the first of the array when both do).
\<close>

definition both :: "'a traced \<Rightarrow> 'c traced \<Rightarrow> ('a \<times> 'c) traced" where
  "both p q =
     (fst p @ fst q,
      case snd p of
        Rejected e \<Rightarrow> Rejected e
      | Resolved a \<Rightarrow> (case snd q of Rejected e \<Rightarrow> Rejected e | Resolved c \<Rightarrow> Resolved (a, c)))"

text \<open>
  The report of a deployment. The source also records two durations in it
  (\<open>packageBuildTime\<close> and \<open>deployTime\<close>, read from the clock), which the model leaves out.
\<close>

record report =
  report_name :: string
  operation :: "string option"
  arn :: "string option"
  publishedVersion :: "string option"
  aliasExisted :: "bool option"

definition Lambda_isDeployed :: "'b aws_lambda \<Rightarrow> string \<Rightarrow> bool traced" where
  "Lambda_isDeployed awsLambda functionName =
     ([GetFunction functionName],
      case getFunction awsLambda functionName of
        Resolved r \<Rightarrow> Resolved True
      | Rejected e \<Rightarrow>
          if err_code e \<noteq> Some ''ResourceNotFoundException'' then Rejected e
          else Resolved False)"

definition Lambda_create ::
  "'b aws_lambda \<Rightarrow> lambda \<Rightarrow> deploy_context \<Rightarrow> function_configuration traced" where
  "Lambda_create awsLambda this context =
     (let params = lambda_params this
      in andThen
           (both ([], buildPackage awsLambda this)
                 ([], retrieveRoleArn awsLambda (Role params) context))
           (\<lambda>(buffer, roleArn).
              ([CreateFunction (FunctionName params)],
               createFunction awsLambda (params\<lparr>Role := roleArn\<rparr>) buffer)))"

definition Lambda_update ::
  "'b aws_lambda \<Rightarrow> lambda \<Rightarrow> deploy_context \<Rightarrow> function_configuration traced" where
  "Lambda_update awsLambda this context =
     (let params = lambda_params this
      in andThen ([], buildPackage awsLambda this)
           (\<lambda>buffer.
              andThen
                (both ([UpdateFunctionCode (FunctionName params)],
                        updateFunctionCode awsLambda (FunctionName params) (Publish params) buffer)
                      ([], retrieveRoleArn awsLambda (Role params) context))
                (\<lambda>(codeUpdateResponse, roleArn).
                   ([UpdateFunctionConfiguration (FunctionName params)],
                    updateFunctionConfiguration awsLambda (params\<lparr>Role := roleArn\<rparr>)))))"

definition Lambda_aliasExists :: "'b aws_lambda \<Rightarrow> string \<Rightarrow> string \<Rightarrow> bool traced" where
  "Lambda_aliasExists awsLambda functionName alias =
     ([GetAlias functionName alias],
      case getAlias awsLambda functionName alias of
        Resolved r \<Rightarrow> Resolved True
      | Rejected e \<Rightarrow>
          if err_code e \<noteq> Some ''ResourceNotFoundException'' then Rejected e
          else Resolved False)"

definition Lambda_setAlias :: "'b aws_lambda \<Rightarrow> lambda \<Rightarrow> string \<Rightarrow> report \<Rightarrow> report traced" where
  "Lambda_setAlias awsLambda this alias report0 =
     (let functionName = FunctionName (lambda_params this)
      in andThen ([PublishVersion functionName], publishVersion awsLambda functionName)
           (\<lambda>data.
              let report1 = report0\<lparr>publishedVersion := Some (Version data)\<rparr>
              in andThen (Lambda_aliasExists awsLambda functionName alias)
                   (\<lambda>exists.
                      let report2 = report1\<lparr>aliasExisted := Some exists\<rparr>
                      in andThen
                           (if exists
                            then ([UpdateAlias functionName (Version data) alias],
                                  updateAlias awsLambda functionName (Version data) alias)
                            else ([CreateAlias functionName (Version data) alias],
                                  createAlias awsLambda functionName (Version data) alias))
                           (\<lambda>aliased. ([], Resolved (report2\<lparr>arn := Some (AliasArn aliased)\<rparr>))))))"

text \<open>\<open>(context.environment ? context.environment + '-' : '') + this.identifier\<close>.\<close>

definition deployedName :: "deploy_context \<Rightarrow> lambda \<Rightarrow> string" where
  "deployedName context this =
     (case ctx_environment context of
        Some env \<Rightarrow> (if env \<noteq> [] then env @ ''-'' else [])
      | None \<Rightarrow> []) @ lambda_identifier this"

text \<open>\<open>this.config.params.FunctionName = functionName\<close>, the second statement of \<open>deploy\<close>.\<close>

definition withFunctionName :: "deploy_context \<Rightarrow> lambda \<Rightarrow> lambda" where
  "withFunctionName context this =
     this\<lparr>lambda_params := (lambda_params this)\<lparr>FunctionName := deployedName context this\<rparr>\<rparr>"

text \<open>
  The last step of \<open>deploy\<close>: with a stage in the context the alias is set, and else the
  report gets the ARN of the function.
\<close>

definition aliasOrArn ::
  "'b aws_lambda \<Rightarrow> lambda \<Rightarrow> deploy_context \<Rightarrow> report \<Rightarrow> function_configuration \<Rightarrow> report traced" where
  "aliasOrArn awsLambda this context report1 data =
     (case ctx_stage context of
        Some alias \<Rightarrow>
          if alias \<noteq> [] then Lambda_setAlias awsLambda this alias report1
          else ([], Resolved (report1\<lparr>arn := Some (FunctionArn data)\<rparr>))
      | None \<Rightarrow> ([], Resolved (report1\<lparr>arn := Some (FunctionArn data)\<rparr>)))"

definition Lambda_deploy :: "'b aws_lambda \<Rightarrow> lambda \<Rightarrow> string \<Rightarrow> deploy_context \<Rightarrow> report traced" where
  "Lambda_deploy awsLambda this0 region context =
     (let functionName = deployedName context this0;
          this = withFunctionName context this0;
          report0 = \<lparr>report_name = functionName, operation = None, arn = None,
                     publishedVersion = None, aliasExisted = None\<rparr>
      in andThen (Lambda_isDeployed awsLambda functionName)
           (\<lambda>deployed.
              if deployed
              then (let report1 = report0\<lparr>operation := Some ''Update''\<rparr>
                    in andThen (Lambda_update awsLambda this context)
                         (aliasOrArn awsLambda this context report1))
              else (let report1 = report0\<lparr>operation := Some ''Creation''\<rparr>
                    in andThen (Lambda_create awsLambda this context)
                         (aliasOrArn awsLambda this context report1))))"

text \<open>
  Values for the examples: a provider on which the function \<open>DEV-my-lambda\<close> exists, and
  one that answers \<open>ResourceNotFoundException\<close> to the lookup; every other call succeeds.
\<close>

definition my_lambda :: lambda where
  "my_lambda =
     \<lparr>lambda_identifier = ''my-lambda'',
      lambda_params = \<lparr>FunctionName = ''my-lambda'', Role = ''LambdaBasicExecution'', Publish = False\<rparr>\<rparr>"

definition dev_context :: deploy_context where
  "dev_context = \<lparr>ctx_environment = Some ''DEV'', ctx_stage = None\<rparr>"

definition deployed_configuration :: function_configuration where
  "deployed_configuration =
     \<lparr>FunctionArn = ''arn:aws:lambda:us-east-1:012345678901:function:DEV-my-lambda'', Version = ''$LATEST''\<rparr>"

definition resourceNotFound :: js_error where
  "resourceNotFound =
     \<lparr>err_code = Some ''ResourceNotFoundException'', err_message = ''Function not found'',
      err_path = None, err_cause = None\<rparr>"

definition existing_provider :: "unit aws_lambda" where
  "existing_provider =
     \<lparr>getFunction = (\<lambda>n. Resolved deployed_configuration),
      createFunction = (\<lambda>p b. Resolved deployed_configuration),
      updateFunctionCode = (\<lambda>n p b. Resolved deployed_configuration),
      updateFunctionConfiguration = (\<lambda>p. Resolved deployed_configuration),
      publishVersion = (\<lambda>n. Resolved (deployed_configuration\<lparr>Version := ''1''\<rparr>)),
      getAlias = (\<lambda>n a. Rejected resourceNotFound),
      createAlias = (\<lambda>n v a. Resolved \<lparr>AliasArn = ''arn:alias'', FunctionVersion = v\<rparr>),
      updateAlias = (\<lambda>n v a. Resolved \<lparr>AliasArn = ''arn:alias'', FunctionVersion = v\<rparr>),
      buildPackage = (\<lambda>l. Resolved ()),
      retrieveRoleArn = (\<lambda>r c. Resolved (''arn:aws:iam::012345678901:role/'' @ r))\<rparr>"

definition fresh_provider :: "unit aws_lambda" where
  "fresh_provider = existing_provider\<lparr>getFunction := (\<lambda>n. Rejected resourceNotFound)\<rparr>"

definition throttling_provider :: "unit aws_lambda" where
  "throttling_provider = existing_provider\<lparr>getFunction := (\<lambda>n. Rejected throttling_error)\<rparr>"


section \<open>The deploy-apis command\<close>

text \<open>
  \<open>executeCommand\<close> of the deploy-apis command of the api-gateway plugin, from the
  deployment of the selected APIs on: the deployments are started one after the other
  (each delayed by a timer, which the model leaves out), and the last handler prints the
  table of the results and publishes the APIs. The class \<open>Api\<close> is not among the sources:
  \<open>api.getIdentifier\<close>, \<open>api.deploy\<close> and \<open>api.publish\<close> are parameters, and so is the
  rendering of the table (the package \<open>easy-table\<close>).

  The module has no binding of \<open>Promise\<close>: unlike its sibling modules, which start with
  \<open>const Promise = require('bluebird')\<close> or \<open>const Promise = lager.import.Promise\<close>, it
  requires only \<open>lodash\<close>, \<open>easy-table\<close> and the plugin. So \<open>Promise\<close> in it is the global
  one, the built-in \<open>Promise\<close> of Node unless the global has been replaced. \<open>Promise.all\<close>
  and \<open>new Promise\<close> exist on both; \<open>Promise.map\<close> is a method of Bluebird only, and on
  the built-in \<open>Promise\<close> the call throws a \<open>TypeError\<close>. The library the global is bound
  to is a parameter of the model.
\<close>

record api_report =
  apiReport_name :: "string option"
  apiReport_operation :: "string option"
  apiReport_stage :: "string option"
  apiReport_awsId :: "string option"
  apiReport_failed :: "string option"

record 'a deploy_result =
  result_api :: 'a
  result_report :: api_report

text \<open>What the command does that can be seen: a line printed, an API published.\<close>

datatype 'a cli_event = Printed string | Published 'a

text \<open>String concatenation with a property that may be \<open>undefined\<close>.\<close>

definition toString :: "string option \<Rightarrow> string" where
  "toString v = (case v of None \<Rightarrow> ''undefined'' | Some s \<Rightarrow> s)"

text \<open>
  The loop over the results in the last handler: one row of the table for each result,
  and \<open>success\<close> set to \<open>false\<close> by every result whose report has a truthy \<open>failed\<close>.
\<close>

fun tableOfResults ::
  "('a \<Rightarrow> string) \<Rightarrow> 'a deploy_result list \<Rightarrow> (string \<times> string option) list list \<Rightarrow> bool \<Rightarrow>
   (string \<times> string option) list list \<times> bool" where
  "tableOfResults getIdentifier [] rows success = (rows, success)"
| "tableOfResults getIdentifier (result # results) rows success =
     (let report = result_report result;
          cells =
            [(''Identifier'', Some (getIdentifier (result_api result))),
             (''Name'', apiReport_name report),
             (''Operation'', apiReport_operation report),
             (''Stage'', apiReport_stage report),
             (''AWS identifier'', apiReport_awsId report)]
      in if truthy (apiReport_failed report)
         then tableOfResults getIdentifier results
                (rows @ [cells @ [(''Url'', apiReport_failed report)]]) False
         else tableOfResults getIdentifier results
                (rows @ [cells @ [(''Url'', Some (''https://'' @ toString (apiReport_awsId report)
                    @ ''.execute-api.us-east-1.amazonaws.com/'' @ toString (apiReport_stage report)))]])
                success)"

text \<open>The last handler, \<open>.spread((apis, results) => ...)\<close>.\<close>

definition publishAfterDeployment ::
  "promise_library \<Rightarrow> ((string \<times> string option) list list \<Rightarrow> string) \<Rightarrow> ('a \<Rightarrow> string) \<Rightarrow>
   ('a \<Rightarrow> string \<Rightarrow> deploy_context \<Rightarrow> unit promise) \<Rightarrow> string \<Rightarrow> deploy_context \<Rightarrow>
   'a list \<Rightarrow> 'a deploy_result list \<Rightarrow> 'a cli_event list \<times> unit outcome" where
  "publishAfterDeployment Promise tableToString getIdentifier publish region context apis results =
     (case tableOfResults getIdentifier results [] True of
        (rows, success) \<Rightarrow>
          (let printed = [Printed '''', Printed ''Deployment done'', Printed '''',
                          Printed (tableToString rows)]
           in if success
              then (case Promise of
                      BuiltIn \<Rightarrow> (printed, Rejects (typeError ''Promise.map is not a function''))
                    | Bluebird \<Rightarrow>
                        (case promise_map apis (\<lambda>api. publish api region context) of
                           Rejected e \<Rightarrow> (printed @ map Published apis, Rejects e)
                         | Resolved published \<Rightarrow>
                             (printed @ map Published apis
                                @ [Printed ''APIs have been published'', Printed ''''],
                              Resolves ())))
              else (printed
                      @ [Printed ''The deployment of one or more APIs failed. The publication step will not be performed.'',
                         Printed ''''],
                    Exits 1)))"

text \<open>
  The handler before it starts the deployment of every API (\<open>Deploying ...\<close> is printed
  when the timer of an API fires) and waits for all of them with \<open>Promise.all\<close>.
\<close>

definition deployApis_executeCommand ::
  "promise_library \<Rightarrow> ((string \<times> string option) list list \<Rightarrow> string) \<Rightarrow> ('a \<Rightarrow> string) \<Rightarrow>
   ('a \<Rightarrow> string \<Rightarrow> deploy_context \<Rightarrow> 'a deploy_result promise) \<Rightarrow>
   ('a \<Rightarrow> string \<Rightarrow> deploy_context \<Rightarrow> unit promise) \<Rightarrow> string \<Rightarrow> deploy_context \<Rightarrow>
   'a list \<Rightarrow> 'a cli_event list \<times> unit outcome" where
  "deployApis_executeCommand Promise tableToString getIdentifier deploy publish region context apis =
     (let deploying = map (\<lambda>api. Printed (''Deploying '' @ getIdentifier api @ '' ...'')) apis
      in case promise_all (map (\<lambda>api. deploy api region context) apis) of
           Rejected e \<Rightarrow> (deploying, Rejects e)
         | Resolved results \<Rightarrow>
             (case publishAfterDeployment Promise tableToString getIdentifier publish region context
                     apis results of
                (events, res) \<Rightarrow> (deploying @ events, res)))"

text \<open>
  Values for the examples: three APIs named by their identifiers; the provider rejects
  the deployment of the second one, which its report records.
\<close>

definition deployed_report :: "string \<Rightarrow> api_report" where
  "deployed_report identifier =
     \<lparr>apiReport_name = Some (''DEV '' @ identifier), apiReport_operation = Some ''Created'',
      apiReport_stage = Some ''v0'', apiReport_awsId = Some ''a1b2c3'', apiReport_failed = None\<rparr>"

definition failed_report :: "string \<Rightarrow> api_report" where
  "failed_report identifier =
     (deployed_report identifier)\<lparr>apiReport_awsId := None, apiReport_failed := Some ''TooManyRequestsException''\<rparr>"

definition deploy_all_succeed :: "string \<Rightarrow> string \<Rightarrow> deploy_context \<Rightarrow> string deploy_result promise" where
  "deploy_all_succeed api region context =
     Resolved \<lparr>result_api = api, result_report = deployed_report api\<rparr>"

definition deploy_second_fails :: "string \<Rightarrow> string \<Rightarrow> deploy_context \<Rightarrow> string deploy_result promise" where
  "deploy_second_fails api region context =
     Resolved \<lparr>result_api = api,
               result_report = (if api = ''second'' then failed_report api else deployed_report api)\<rparr>"

text \<open>The APIs a list of events publishes, in order.\<close>

fun publishedApis :: "'a cli_event list \<Rightarrow> 'a list" where
  "publishedApis [] = []"
| "publishedApis (Published api # events) = api # publishedApis events"
| "publishedApis (Printed line # events) = publishedApis events"


section \<open>The CORS hook\<close>

text \<open>
  \<open>packages/cors/src/hooks/after-add-endpoints-to-api.js\<close>. The classes \<open>Endpoint\<close> and
  \<open>Api\<close> are not among the sources. Of an endpoint the hook uses the constructor and the
  methods \<open>getResourcePath\<close> and \<open>getMethod\<close>; of the API it reads the specification, the
  endpoints and the identifier, and it calls \<open>api.addEndpoint(endpoint, true)\<close>. The
  model gives the calls of \<open>addEndpoint\<close> the hook makes, in order.
\<close>

record 'e endpoint_class =
  Endpoint :: "document \<Rightarrow> string \<Rightarrow> string \<Rightarrow> 'e"
  getResourcePath :: "'e \<Rightarrow> string"
  getMethod :: "'e \<Rightarrow> string"

record 'e api =
  api_spec :: document
  api_endpoints :: "'e list"
  api_identifier :: string

text \<open>
  \<open>e.getMethod === 'OPTIONS'\<close>: the hook compares the method \<open>getMethod\<close> itself, a
  function object, with the string, without calling it. A function is never strictly
  equal to a string.
\<close>

definition functionStrictEqualsString :: "('e \<Rightarrow> string) \<Rightarrow> string \<Rightarrow> bool" where
  "functionStrictEqualsString f s = False"

text \<open>\<open>_.uniq\<close>: the first occurrence of every element, in order.\<close>

definition uniq :: "'x list \<Rightarrow> 'x list" where
  "uniq xs = rev (remdups (rev xs))"

text \<open>\<open>Object.assign(target, source)\<close> on mappings.\<close>

definition objectAssign :: "document \<Rightarrow> document \<Rightarrow> document" where
  "objectAssign target source = foldl (\<lambda>t (k, v). assignValue k v t) target source"

text \<open>A configuration of CORS is a mapping; \<open>v || {}\<close> for a property of a document.\<close>

definition mappingOr :: "jsval option \<Rightarrow> document" where
  "mappingOr v = (case v of Some (JObj ps) \<Rightarrow> ps | _ \<Rightarrow> [])"

text \<open>
  \<open>apiSpec['x-lager'] && apiSpec['x-lager'].cors ? apiSpec['x-lager'].cors : {}\<close>, copied
  through \<open>JSON.parse(JSON.stringify(...))\<close>.
\<close>

definition apiCorsOf :: "document \<Rightarrow> document" where
  "apiCorsOf apiSpec =
     (case map_of apiSpec ''x-lager'' of
        Some (JObj xLager) \<Rightarrow> mappingOr (map_of xLager ''cors'')
      | _ \<Rightarrow> [])"

text \<open>
  Writing the headers into
  \<open>spec['x-amazon-apigateway-integration'].responses.default.responseParameters\<close>: a
  property missing on the way is a \<open>TypeError\<close> (\<open>None\<close>).
\<close>

fun updatePath :: "string list \<Rightarrow> (document \<Rightarrow> document) \<Rightarrow> jsval \<Rightarrow> jsval option" where
  "updatePath [] f (JObj ps) = Some (JObj (f ps))"
| "updatePath (k # ks) f (JObj ps) =
     (case map_of ps k of
        None \<Rightarrow> None
      | Some v \<Rightarrow>
          (case updatePath ks f v of
             None \<Rightarrow> None
           | Some v' \<Rightarrow> Some (JObj (assignValue k v' ps))))"
| "updatePath ks f v = None"

definition corsSpec :: "(jsval \<Rightarrow> string) \<Rightarrow> document \<Rightarrow> document \<Rightarrow> document result" where
  "corsSpec toStr baseSpec cors =
     (case updatePath [''x-amazon-apigateway-integration'', ''responses'', ''default'', ''responseParameters'']
             (\<lambda>rp. foldl (\<lambda>rp (key, value).
                       assignValue (''method.response.header.'' @ key)
                         (JStr ([CHR 0x27] @ toStr value @ [CHR 0x27])) rp) rp cors)
             (JObj baseSpec) of
        Some (JObj spec) \<Rightarrow> Returns spec
      | _ \<Rightarrow> Throws (typeError ''Cannot read property of undefined''))"

text \<open>
  The body of \<open>resourcePaths.forEach\<close>, over the rest of the resource paths and with the
  calls of \<open>addEndpoint\<close> made so far. \<open>requireCors resourcePath\<close> is
  \<open>require(path.join(process.cwd(), endpointsPath, resourcePath, 'cors'))\<close>; \<open>toStr\<close> is
  the conversion of a value to a string in \<open>"'" + value + "'"\<close>; \<open>baseSpec\<close> is the module
  \<open>./spec\<close> of the plugin.
\<close>

fun addCorsEndpoints ::
  "'e endpoint_class \<Rightarrow> (string \<Rightarrow> load) \<Rightarrow> (jsval \<Rightarrow> string) \<Rightarrow> document \<Rightarrow> 'e api \<Rightarrow>
   string list \<Rightarrow> ('e \<times> bool) list \<Rightarrow> ('e \<times> bool) list result" where
  "addCorsEndpoints cls requireCors toStr baseSpec api [] calls = Returns calls"
| "addCorsEndpoints cls requireCors toStr baseSpec api (resourcePath # resourcePaths) calls =
     (if \<not> (\<exists>e \<in> set (api_endpoints api).
               functionStrictEqualsString (getMethod cls) ''OPTIONS'' \<and>
               getResourcePath cls e = resourcePath)
      then (let cors0 = apiCorsOf (api_spec api)
            in case (case requireCors resourcePath of
                       Loaded endpointCors \<Rightarrow>
                         Returns
                           (objectAssign
                              (objectAssign cors0 (mappingOr (map_of endpointCors ''default'')))
                              (mappingOr (map_of endpointCors (api_identifier api))))
                     | LoadFails e \<Rightarrow>
                         if err_code e \<noteq> Some ''MODULE_NOT_FOUND'' then Throws e else Returns cors0) of
                 Throws e \<Rightarrow> Throws e
               | Returns cors \<Rightarrow>
                   (case corsSpec toStr baseSpec cors of
                      Throws e \<Rightarrow> Throws e
                    | Returns spec \<Rightarrow>
                        addCorsEndpoints cls requireCors toStr baseSpec api resourcePaths
                          (calls @ [(Endpoint cls spec resourcePath ''OPTIONS'', True)])))
      else addCorsEndpoints cls requireCors toStr baseSpec api resourcePaths calls)"

text \<open>The hook: the calls of \<open>api.addEndpoint(corsEndpoint, true)\<close> it makes.\<close>

definition afterAddEndpointsToApi ::
  "'e endpoint_class \<Rightarrow> (string \<Rightarrow> load) \<Rightarrow> (jsval \<Rightarrow> string) \<Rightarrow> document \<Rightarrow> 'e api \<Rightarrow>
   ('e \<times> bool) list result" where
  "afterAddEndpointsToApi cls requireCors toStr baseSpec api =
     (let endpoints = api_endpoints api;
          resourcePaths = uniq (map (getResourcePath cls) endpoints)
      in addCorsEndpoints cls requireCors toStr baseSpec api resourcePaths [])"

text \<open>
  Values for the example: endpoints as the tuples of the arguments of the constructor, the
  base specification of the plugin reduced to the mapping of the headers, and an API that
  has \<open>GET /users\<close> and already its own \<open>OPTIONS /users\<close>.
\<close>

definition tuple_endpoints :: "(document \<times> string \<times> string) endpoint_class" where
  "tuple_endpoints =
     \<lparr>Endpoint = (\<lambda>spec resourcePath method. (spec, resourcePath, method)),
      getResourcePath = (\<lambda>e. fst (snd e)),
      getMethod = (\<lambda>e. snd (snd e))\<rparr>"

definition cors_baseSpec :: document where
  "cors_baseSpec =
     [(''x-amazon-apigateway-integration'',
         JObj [(''responses'', JObj [(''default'', JObj [(''responseParameters'', JObj [])])])])]"

definition own_options :: document where
  "own_options = [(''summary'', JStr ''the preflight of the application'')]"

definition api_with_options :: "(document \<times> string \<times> string) api" where
  "api_with_options =
     \<lparr>api_spec = [(''x-lager'', JObj [(''identifier'', JStr ''public'')])],
      api_endpoints = [(users_spec, ''/users'', ''GET''), (own_options, ''/users'', ''OPTIONS'')],
      api_identifier = ''public''\<rparr>"


section \<open>Theorems: the deep merge\<close>

lemma map_of_assignValue: "map_of (assignValue k v ps) = (map_of ps)(k \<mapsto> v)"
  by (induction ps) auto

lemma assignValue_new: "k \<notin> fst ` set ps \<Longrightarrow> assignValue k v ps = ps @ [(k, v)]"
  by (induction ps) auto

text \<open>
  The value of a key after the merge: the value the destination had when the source does
  not have the key, and else the merge of the two values.
\<close>

lemma map_of_mergeObject:
  "distinct (map fst src) \<Longrightarrow>
   map_of (mergeObject obj src) k =
     (case map_of src k of
        None \<Rightarrow> map_of obj k
      | Some v \<Rightarrow> Some (mergeValue (map_of obj k) v))"
proof (induction src arbitrary: obj)
  case Nil
  then show ?case by simp
next
  case (Cons p src)
  obtain k' v' where p: "p = (k', v')" by (cases p)
  from Cons.prems p have d: "distinct (map fst src)" and nk: "k' \<notin> fst ` set src" by auto
  from nk have none: "map_of src k' = None" by (simp add: map_of_eq_None_iff)
  show ?case
    using Cons.IH [OF d, of "assignValue k' (mergeValue (map_of obj k') v') obj"] none
    by (auto simp: p map_of_assignValue split: option.splits)
qed

text \<open>Merged into nothing or over a scalar, a JSON document is copied.\<close>

lemma merge_copy:
  "(distinct (map fst src) \<and> fst ` set src \<inter> fst ` set obj = {} \<and> (\<forall>p \<in> set src. isJson (snd p))
      \<longrightarrow> mergeObject obj src = obj @ src)"
  "((objValue = None \<or> (\<exists>w. objValue = Some w \<and> isScalar w)) \<and> isJson v \<longrightarrow> mergeValue objValue v = v)"
  "(os = [] \<and> (\<forall>v \<in> set ss. isJson v) \<longrightarrow> mergeArray os ss = ss)"
proof (induction obj src and objValue v and os ss rule: mergeObject_mergeValue_mergeArray.induct)
  case (2 object key srcValue source)
  show ?case
  proof (intro impI, elim conjE)
    assume d: "distinct (map fst ((key, srcValue) # source))"
      and i: "fst ` set ((key, srcValue) # source) \<inter> fst ` set object = {}"
      and j: "\<forall>p\<in>set ((key, srcValue) # source). isJson (snd p)"
    from i have nk: "key \<notin> fst ` set object" by auto
    then have none: "map_of object key = None" by (simp add: map_of_eq_None_iff)
    from j have "isJson srcValue" by simp
    with 2(1) none have v: "mergeValue (map_of object key) srcValue = srcValue" by simp
    have a: "assignValue key srcValue object = object @ [(key, srcValue)]"
      using nk by (rule assignValue_new)
    have "mergeObject (object @ [(key, srcValue)]) source = (object @ [(key, srcValue)]) @ source"
      using 2(2) d i j unfolding v a by auto
    then show "mergeObject object ((key, srcValue) # source) = object @ (key, srcValue) # source"
      by (simp add: v a)
  qed
next
  case (3 objValue source)
  then show ?case by (auto split: option.splits jsval.splits)
next
  case (4 objValue source)
  then show ?case by (auto split: option.splits jsval.splits)
qed auto

lemma mergeValue_scalar: "isScalar v \<Longrightarrow> mergeValue objValue v = v"
  by (cases v) simp_all

lemma length_mergeArray: "length (mergeArray os ss) = max (length os) (length ss)"
  by (induction ss arbitrary: os) (case_tac os; simp)+

lemma nth_mergeArray_src:
  "i < length ss \<Longrightarrow>
   mergeArray os ss ! i = mergeValue (if i < length os then Some (os ! i) else None) (ss ! i)"
proof (induction ss arbitrary: os i)
  case Nil
  then show ?case by simp
next
  case (Cons s ss)
  show ?case
  proof (cases os)
    case Nil
    with Cons show ?thesis by (cases i) auto
  next
    case (Cons a list)
    with Cons.IH [of _ list] Cons.prems show ?thesis by (cases i) auto
  qed
qed

lemma nth_mergeArray_rest:
  "length ss \<le> i \<Longrightarrow> i < length os \<Longrightarrow> mergeArray os ss ! i = os ! i"
proof (induction ss arbitrary: os i)
  case Nil
  then show ?case by simp
next
  case (Cons s ss)
  then show ?case by (cases os; cases i) auto
qed


section \<open>Theorems: mergeSpecsFiles\<close>

lemma split_nonempty: "split c s \<noteq> []"
  by (induction s) (auto split: list.splits)

lemma split_no_sep: "c \<notin> set s \<Longrightarrow> split c s = [s]"
  by (induction s) auto

lemma split_snoc: "c \<notin> set leaf \<Longrightarrow> split c (p @ c # leaf) = split c p @ [leaf]"
proof (induction p)
  case Nil
  then show ?case by (simp add: split_no_sep)
next
  case (Cons x p)
  then show ?case
    using split_nonempty [of c p] by (cases "split c p") auto
qed

lemma specDirs_Nil_iff [simp]: "specDirs dir xs = [] \<longleftrightarrow> xs = []"
  by (cases xs) auto

lemma specDirs_append:
  "xs \<noteq> [] \<Longrightarrow> specDirs dir (xs @ ys) = specDirs dir xs @ specDirs (last (specDirs dir xs)) ys"
proof (induction xs arbitrary: dir)
  case Nil
  then show ?case by simp
next
  case (Cons x xs)
  then show ?case by (cases xs) auto
qed

lemma leafDir_snoc:
  "path_sep \<notin> set leaf \<Longrightarrow>
   leafDir beginPath (parent @ path_sep # leaf) = path_join (leafDir beginPath parent) leaf"
  using split_nonempty [of path_sep parent]
  by (simp add: leafDir_def split_snoc specDirs_append)

text \<open>
  The loop over one more segment: the loop over the segments before it, and then one
  round from the accumulator and the directory it reached.
\<close>

lemma mergeLoop_snoc:
  "xs \<noteq> [] \<Longrightarrow>
   mergeLoop require spec dir (xs @ [y]) =
     (case mergeLoop require spec dir xs of
        Throws e \<Rightarrow> Throws e
      | Returns acc \<Rightarrow> mergeLoop require acc (last (specDirs dir xs)) [y])"
proof (induction xs arbitrary: spec dir)
  case Nil
  then show ?case by simp
next
  case (Cons x xs)
  show ?case
  proof (cases "xs = []")
    case True
    then show ?thesis by (simp add: Let_def split: load.splits)
  next
    case False
    then show ?thesis
      using Cons.IH [OF False] False by (simp add: Let_def split: load.splits result.splits)
  qed
qed

text \<open>A loop in which no directory has a \<open>spec\<close> file returns the accumulator.\<close>

lemma mergeLoop_absent:
  "xs \<noteq> [] \<Longrightarrow>
   \<forall>d \<in> set (specDirs dir xs).
     \<exists>e. require (specFile d) = LoadFails e \<and> err_code e = Some ''MODULE_NOT_FOUND'' \<Longrightarrow>
   mergeLoop require spec dir xs = Returns spec"
proof (induction xs arbitrary: dir)
  case Nil
  then show ?case by simp
next
  case (Cons x xs)
  then show ?case
    by (cases "xs = []") (auto simp: Let_def specFile_def)
qed

text \<open>
  A load that fails for another reason than a missing file is thrown, whatever the
  levels before it held, as long as they loaded or were absent.
\<close>

lemma mergeLoop_throws:
  "require (specFile (last (specDirs dir (xs @ [y])))) = LoadFails e \<Longrightarrow>
   err_code e \<noteq> Some ''MODULE_NOT_FOUND'' \<Longrightarrow>
   \<forall>d \<in> set (specDirs dir xs). \<forall>e'. require (specFile d) = LoadFails e' \<longrightarrow>
      err_code e' = Some ''MODULE_NOT_FOUND'' \<Longrightarrow>
   mergeLoop require spec dir (xs @ [y] @ zs) = Throws e"
proof (induction xs arbitrary: spec dir)
  case Nil
  then show ?case by (simp add: Let_def specFile_def)
next
  case (Cons x xs)
  have l: "last (specDirs dir ((x # xs) @ [y])) = last (specDirs (path_join dir x) (xs @ [y]))"
    by simp
  have ih: "mergeLoop require s (path_join dir x) (xs @ [y] @ zs) = Throws e" for s
    using Cons.IH [of "path_join dir x" s] Cons.prems unfolding l by simp
  show ?case
  proof (cases "require (specFile (path_join dir x))")
    case (Loaded d)
    then show ?thesis using ih by (simp add: Let_def specFile_def)
  next
    case (LoadFails e')
    with Cons.prems(3) have "err_code e' = Some ''MODULE_NOT_FOUND''" by simp
    with LoadFails show ?thesis using ih by (simp add: Let_def specFile_def)
  qed
qed

lemma mergeObject_laws:
  assumes "distinct (map fst source)"
  shows "(\<forall>k. map_of source k = None \<longrightarrow> map_of (mergeObject object source) k = map_of object k) \<and>
     (\<forall>k v. map_of source k = Some v \<and> map_of object k = None \<and> isJson v \<longrightarrow>
        map_of (mergeObject object source) k = Some v) \<and>
     (\<forall>k v. map_of source k = Some v \<and> isScalar v \<longrightarrow>
        map_of (mergeObject object source) k = Some v) \<and>
     (\<forall>k a b. map_of object k = Some (JObj a) \<and> map_of source k = Some (JObj b) \<longrightarrow>
        map_of (mergeObject object source) k = Some (JObj (mergeObject a b))) \<and>
     (\<forall>k a b. map_of object k = Some (JArr a) \<and> map_of source k = Some (JArr b) \<longrightarrow>
        map_of (mergeObject object source) k = Some (JArr (mergeArray a b)) \<and>
        length (mergeArray a b) = max (length a) (length b) \<and>
        (\<forall>i. i < length b \<longrightarrow>
           mergeArray a b ! i = mergeValue (if i < length a then Some (a ! i) else None) (b ! i)) \<and>
        (\<forall>i. length b \<le> i \<and> i < length a \<longrightarrow> mergeArray a b ! i = a ! i))"
  using merge_copy(2) [of None]
  by (simp add: map_of_mergeObject [OF assms] mergeValue_scalar length_mergeArray
      nth_mergeArray_src nth_mergeArray_rest)

lemma mergeSpecsFiles_step:
  assumes shallow: "mergeSpecsFiles require beginPath parent = Returns shallow"
    and leaf: "path_sep \<notin> set leaf"
  shows "mergeSpecsFiles require beginPath (parent @ path_sep # leaf) =
           mergeLoop require shallow (leafDir beginPath parent) [leaf]"
  using shallow split_nonempty [of path_sep parent]
  by (simp add: mergeSpecsFiles_def split_snoc [OF leaf] mergeLoop_snoc leafDir_def)

text \<open>
  C1, as the claim states it, fails on the arrays. With \<open>tags\<close> set to \<open>[a, b, c]\<close> in
  \<open>users/spec\<close> and to \<open>[x]\<close> in \<open>users/GET/spec\<close>, the merged document has
  \<open>[x, b, c]\<close> for \<open>tags\<close>, not the array \<open>[x]\<close> of the deeper fragment: the array of the
  deeper level is merged into the array of the shallower level index by index.
\<close>

theorem mergeSpecsFiles_array_not_replaced:
  "mergeSpecsFiles two_levels ''/project/endpoints'' ''/users/GET'' =
     Returns
       [(''summary'', JStr ''list the users''),
        (''x-lager'', JObj [(''apis'', JArr [JStr ''public'']), (''lambda'', JStr ''list-users'')]),
        (''tags'', JArr [JStr ''x'', JStr ''b'', JStr ''c'']),
        (''produce'', JArr [JStr ''application/json''])] \<and>
   map_of users_spec ''tags'' = Some (JArr [JStr ''a'', JStr ''b'', JStr ''c'']) \<and>
   map_of users_GET_spec ''tags'' = Some (JArr [JStr ''x''])"
  by (simp add: mergeSpecsFiles_def two_levels_def users_spec_def users_GET_spec_def
      moduleNotFound_def path_sep_def path_join_def Let_def)

text \<open>
  C1, amended. \<open>mergeSpecsFiles\<close> walks from the root to the leaf and merges the fragment
  of each level into the accumulator: for a sub-path of one segment it merges the fragment
  of that directory into the empty document, and for a sub-path \<open>parent/leaf\<close> it merges
  the fragment found in the directory of \<open>leaf\<close> into the document it returns for
  \<open>parent\<close>, which it returns unchanged when the directory of \<open>leaf\<close> has no \<open>spec\<close> file.
  The merge of a fragment \<open>source\<close> (its keys distinct) into a document \<open>object\<close> obeys,
  at every level of nesting:
  \<^item> a key that only \<open>object\<close> has keeps its value;
  \<^item> a key that only \<open>source\<close> has gets the value of \<open>source\<close>, a JSON document;
  \<^item> a scalar of \<open>source\<close> replaces whatever \<open>object\<close> has for the key;
  \<^item> two mappings are merged key by key, by the same merge;
  \<^item> two arrays are merged index by index: the result is as long as the longer of the
    two, the element at an index of \<open>source\<close> is merged into the element \<open>object\<close> has at
    that index, and the elements of \<open>object\<close> past the length of \<open>source\<close> stay.
\<close>

theorem mergeSpecsFiles_deep_merge:
  assumes shallow: "mergeSpecsFiles require beginPath parent = Returns shallow"
    and leaf: "path_sep \<notin> set leaf"
  shows "(\<forall>deeper. require (specFile (leafDir beginPath (parent @ path_sep # leaf))) = Loaded deeper \<longrightarrow>
            mergeSpecsFiles require beginPath (parent @ path_sep # leaf)
              = Returns (mergeObject shallow deeper)) \<and>
         (\<forall>e. require (specFile (leafDir beginPath (parent @ path_sep # leaf))) = LoadFails e \<and>
              err_code e = Some ''MODULE_NOT_FOUND'' \<longrightarrow>
            mergeSpecsFiles require beginPath (parent @ path_sep # leaf) = Returns shallow) \<and>
         (\<forall>only. require (specFile (path_join beginPath leaf)) = Loaded only \<longrightarrow>
            mergeSpecsFiles require beginPath leaf = Returns (mergeObject [] only)) \<and>
         (\<forall>object source. distinct (map fst source) \<longrightarrow>
            (\<forall>k. map_of source k = None \<longrightarrow>
               map_of (mergeObject object source) k = map_of object k) \<and>
            (\<forall>k v. map_of source k = Some v \<and> map_of object k = None \<and> isJson v \<longrightarrow>
               map_of (mergeObject object source) k = Some v) \<and>
            (\<forall>k v. map_of source k = Some v \<and> isScalar v \<longrightarrow>
               map_of (mergeObject object source) k = Some v) \<and>
            (\<forall>k a b. map_of object k = Some (JObj a) \<and> map_of source k = Some (JObj b) \<longrightarrow>
               map_of (mergeObject object source) k = Some (JObj (mergeObject a b))) \<and>
            (\<forall>k a b. map_of object k = Some (JArr a) \<and> map_of source k = Some (JArr b) \<longrightarrow>
               map_of (mergeObject object source) k = Some (JArr (mergeArray a b)) \<and>
               length (mergeArray a b) = max (length a) (length b) \<and>
               (\<forall>i. i < length b \<longrightarrow>
                  mergeArray a b ! i
                    = mergeValue (if i < length a then Some (a ! i) else None) (b ! i)) \<and>
               (\<forall>i. length b \<le> i \<and> i < length a \<longrightarrow> mergeArray a b ! i = a ! i)))"
proof (intro conjI)
  show "\<forall>deeper. require (specFile (leafDir beginPath (parent @ path_sep # leaf))) = Loaded deeper \<longrightarrow>
          mergeSpecsFiles require beginPath (parent @ path_sep # leaf)
            = Returns (mergeObject shallow deeper)"
    by (simp add: mergeSpecsFiles_step [OF shallow leaf] leafDir_snoc [OF leaf] specFile_def Let_def)
  show "\<forall>e. require (specFile (leafDir beginPath (parent @ path_sep # leaf))) = LoadFails e \<and>
            err_code e = Some ''MODULE_NOT_FOUND'' \<longrightarrow>
          mergeSpecsFiles require beginPath (parent @ path_sep # leaf) = Returns shallow"
    by (simp add: mergeSpecsFiles_step [OF shallow leaf] leafDir_snoc [OF leaf] specFile_def Let_def)
  show "\<forall>only. require (specFile (path_join beginPath leaf)) = Loaded only \<longrightarrow>
          mergeSpecsFiles require beginPath leaf = Returns (mergeObject [] only)"
    by (simp add: mergeSpecsFiles_def split_no_sep [OF leaf] specFile_def Let_def)
qed (intro allI impI, rule mergeObject_laws)

theorem mergeSpecsFiles_deep_merge_witness:
  "mergeSpecsFiles two_levels ''/project/endpoints'' ''/users'' = Returns users_spec \<and>
   mergeSpecsFiles two_levels ''/project/endpoints'' ''/users/GET''
     = Returns (mergeObject users_spec users_GET_spec) \<and>
   map_of (mergeObject users_spec users_GET_spec) ''summary'' = Some (JStr ''list the users'') \<and>
   map_of (mergeObject users_spec users_GET_spec) ''x-lager''
     = Some (JObj (mergeObject [(''apis'', JArr [JStr ''public''])] [(''lambda'', JStr ''list-users'')])) \<and>
   map_of (mergeObject users_spec users_GET_spec) ''tags''
     = Some (JArr (mergeArray [JStr ''a'', JStr ''b'', JStr ''c''] [JStr ''x'']))"
proof -
  have shallow: "mergeSpecsFiles two_levels ''/project/endpoints'' ''/users'' = Returns users_spec"
    by (simp add: mergeSpecsFiles_def two_levels_def users_spec_def moduleNotFound_def
        path_sep_def path_join_def Let_def)
  have leaf: "path_sep \<notin> set ''GET''"
    by (simp add: path_sep_def)
  have deeper: "two_levels (specFile (leafDir ''/project/endpoints'' (''/users'' @ path_sep # ''GET'')))
                  = Loaded users_GET_spec"
    by (simp add: two_levels_def specFile_def leafDir_def path_sep_def path_join_def)
  have keys: "distinct (map fst users_GET_spec)"
    by (simp add: users_GET_spec_def)
  have path: "''/users'' @ path_sep # ''GET'' = ''/users/GET''"
    by (simp add: path_sep_def)
  note dm = mergeSpecsFiles_deep_merge [OF shallow leaf]
  note merged = dm [THEN conjunct1, rule_format, OF deeper]
  note laws = dm [THEN conjunct2, THEN conjunct2, THEN conjunct2, rule_format, OF keys,
      where object = users_spec]
  note scalar = laws [THEN conjunct2, THEN conjunct2, THEN conjunct1, rule_format]
  note mappings = laws [THEN conjunct2, THEN conjunct2, THEN conjunct2, THEN conjunct1, rule_format]
  note arrays = laws [THEN conjunct2, THEN conjunct2, THEN conjunct2, THEN conjunct2, rule_format,
      THEN conjunct1]
  have s: "map_of users_GET_spec ''summary'' = Some (JStr ''list the users'')"
    and x1: "map_of users_spec ''x-lager'' = Some (JObj [(''apis'', JArr [JStr ''public''])])"
    and x2: "map_of users_GET_spec ''x-lager'' = Some (JObj [(''lambda'', JStr ''list-users'')])"
    and t1: "map_of users_spec ''tags'' = Some (JArr [JStr ''a'', JStr ''b'', JStr ''c''])"
    and t2: "map_of users_GET_spec ''tags'' = Some (JArr [JStr ''x''])"
    by (simp_all add: users_spec_def users_GET_spec_def)
  have summary: "map_of (mergeObject users_spec users_GET_spec) ''summary'' = Some (JStr ''list the users'')"
    using scalar [of "''summary''" "JStr ''list the users''"] s by simp
  show ?thesis
    using shallow merged [unfolded path] summary mappings [OF conjI [OF x1 x2]]
      arrays [OF conjI [OF t1 t2]]
    by (intro conjI)
qed

text \<open>
  C3. When no directory along the sub-path has a \<open>spec\<close> file (each \<open>require\<close> throws
  \<open>MODULE_NOT_FOUND\<close>), \<open>mergeSpecsFiles\<close> returns the empty document and throws nothing.
\<close>

theorem mergeSpecsFiles_no_fragment:
  assumes "\<forall>dir \<in> set (specDirs beginPath (split path_sep subPath)).
             \<exists>e. require (specFile dir) = LoadFails e \<and> err_code e = Some ''MODULE_NOT_FOUND''"
  shows "mergeSpecsFiles require beginPath subPath = Returns []"
  unfolding mergeSpecsFiles_def
  using split_nonempty assms by (rule mergeLoop_absent)

theorem mergeSpecsFiles_no_fragment_witness:
  "specDirs ''/project/endpoints'' (split path_sep ''/users/GET'')
     = [''/project/endpoints'', ''/project/endpoints/users'', ''/project/endpoints/users/GET''] \<and>
   mergeSpecsFiles no_fragments ''/project/endpoints'' ''/users/GET'' = Returns []"
proof -
  have "\<forall>dir \<in> set (specDirs ''/project/endpoints'' (split path_sep ''/users/GET'')).
          \<exists>e. no_fragments (specFile dir) = LoadFails e \<and> err_code e = Some ''MODULE_NOT_FOUND''"
    by (simp add: no_fragments_def moduleNotFound_def)
  from mergeSpecsFiles_no_fragment [OF this] show ?thesis
    by (simp add: path_sep_def path_join_def)
qed


section \<open>Theorems: the hook bus\<close>

lemma implementations_Cons:
  "implementations (p # ps) eventName =
     (case hookOf p eventName of
        None \<Rightarrow> implementations ps eventName
      | Some hook \<Rightarrow> hook # implementations ps eventName)"
  by (simp add: implementations_def split: option.splits)

lemma implementations_Nil: "implementations [] eventName = []"
  by (simp add: implementations_def)

lemma implementations_none:
  "\<forall>p \<in> set ps. hookOf p eventName = None \<Longrightarrow> implementations ps eventName = []"
proof (induction ps)
  case Nil
  then show ?case by (simp add: implementations_Nil)
next
  case (Cons p ps)
  then show ?case by (simp add: implementations_Cons)
qed

text \<open>From the plugin at index \<open>i\<close> on, the recursion threads the hooks of the rest.\<close>

lemma callPluginsSequencialy_thread:
  "callPluginsSequencialy plugins eventName i args =
     threadArguments (implementations (drop i plugins) eventName) args"
proof (induction plugins eventName i args rule: callPluginsSequencialy.induct)
  case (1 plugins eventName i args)
  show ?case
  proof (cases "i < length plugins")
    case False
    then show ?thesis
      by (simp add: callPluginsSequencialy.simps [of plugins eventName i args]
          implementations_Nil)
  next
    case True
    then have d: "drop i plugins = plugins ! i # drop (i + 1) plugins"
      by (simp add: Cons_nth_drop_Suc)
    from True have nn: "\<not> \<not> i < length plugins" by simp
    show ?thesis
    proof (cases "hookOf (plugins ! i) eventName")
      case None
      then show ?thesis
        using True None "1.IH"(1) [OF nn None]
        by (simp add: callPluginsSequencialy.simps [of plugins eventName i args] d
            implementations_Cons)
    next
      case (Some hook)
      show ?thesis
      proof (cases "hook args")
        case (Rejected e)
        then show ?thesis
          using True Some
          by (simp add: callPluginsSequencialy.simps [of plugins eventName i args] d
              implementations_Cons)
      next
        case (Resolved arguments)
        then show ?thesis
          using True Some Resolved "1.IH"(2) [OF nn Some Resolved]
          by (simp add: callPluginsSequencialy.simps [of plugins eventName i args] d
              implementations_Cons)
      qed
    qed
  qed
qed

text \<open>
  C2. Firing an event that no registered plugin implements resolves to the arguments as
  they were given. In general \<open>fire\<close> calls the hooks of the plugins that implement the
  event, in the order of registration, hands each the arguments the hook before it
  resolved to, skips the plugins without the hook, and resolves to the arguments the last
  hook resolved to (a hook that rejects ends the chain with its error).
\<close>

theorem fire_threads_arguments:
  "((\<forall>p \<in> set plugins. hookOf p eventName = None) \<longrightarrow> fire plugins eventName args = Resolved args) \<and>
   fire plugins eventName args = threadArguments (implementations plugins eventName) args"
  by (simp add: fire_def callPluginsSequencialy_thread implementations_none)

theorem fire_threads_arguments_witness:
  "hookOf silent_plugin ''afterApiLoad'' = None \<and>
   fire [silent_plugin] ''afterApiLoad'' [''a'', ''b'', ''c''] = Resolved [''a'', ''b'', ''c''] \<and>
   fire [replacing_plugin, silent_plugin, copying_plugin] ''afterApiLoad'' [''a'', ''b'', ''c'']
     = Resolved [''a'', ''replaced'', ''replaced''] \<and>
   fire [replacing_plugin, silent_plugin, copying_plugin] ''beforeApiLoad'' [''a'', ''b'', ''c'']
     = Resolved [''a'', ''b'', ''c'']"
proof -
  have none: "\<forall>p \<in> set [silent_plugin]. hookOf p ''afterApiLoad'' = None"
    by (simp add: hookOf_def silent_plugin_def)
  have other: "\<forall>p \<in> set [replacing_plugin, silent_plugin, copying_plugin].
                 hookOf p ''beforeApiLoad'' = None"
    by (simp add: hookOf_def silent_plugin_def replacing_plugin_def copying_plugin_def)
  have impl: "threadArguments
                (implementations [replacing_plugin, silent_plugin, copying_plugin] ''afterApiLoad'')
                [''a'', ''b'', ''c''] = Resolved [''a'', ''replaced'', ''replaced'']"
    by (simp add: implementations_Cons implementations_Nil hookOf_def silent_plugin_def
        replacing_plugin_def copying_plugin_def)
  show ?thesis
    using none other impl
      fire_threads_arguments [of "[silent_plugin]" "''afterApiLoad''" "[''a'', ''b'', ''c'']"]
      fire_threads_arguments [of "[replacing_plugin, silent_plugin, copying_plugin]"
        "''afterApiLoad''" "[''a'', ''b'', ''c'']"]
      fire_threads_arguments [of "[replacing_plugin, silent_plugin, copying_plugin]"
        "''beforeApiLoad''" "[''a'', ''b'', ''c'']"]
    by simp
qed


section \<open>Theorems: loading the APIs and the endpoints\<close>


lemma path_basename_join:
  "b \<noteq> [] \<Longrightarrow> path_sep \<notin> set b \<Longrightarrow> path_basename (path_join a b) = b"
  by (simp add: path_basename_def path_join_def split_snoc)

lemma fire_no_hook:
  "\<forall>p \<in> set plugins. hookOf p eventName = None \<Longrightarrow> fire plugins eventName args = Resolved args"
  by (simp add: fire_def callPluginsSequencialy_thread implementations_none)

lemma loadApis_missing:
  assumes "map_of (project env) ''apis'' = None"
    and "fire (lager_plugins env) ''beforeApisLoad'' [] = Resolved args"
  shows "loadApis env = Resolved (HArray [])"
proof -
  have b: "path_basename (path_join (process_cwd env) ''apis'') = ''apis''"
    by (rule path_basename_join) (simp_all add: path_sep_def)
  show ?thesis
    using assms b
    by (simp add: loadApis_def readdirAsync_def onLoadApisRejected_def enoent_def Let_def)
qed

lemma loadEndpoints_missing:
  assumes "map_of (project env) ''endpoints'' = None"
    and "fire (lager_plugins env) ''beforeEndpointsLoad'' [] = Resolved args"
  shows "loadEndpoints env = Resolved (HArray [])"
proof -
  have b: "path_basename (path_join (process_cwd env) ''endpoints'') = ''endpoints''"
    by (rule path_basename_join) (simp_all add: path_sep_def)
  show ?thesis
    using assms b
    by (simp add: loadEndpoints_def walkSync_def onLoadEndpointsRejected_def enoent_def Let_def)
qed

lemma join_split: "join c (split c s) = s"
proof (induction s)
  case Nil
  then show ?case by simp
next
  case (Cons x s)
  show ?case
  proof (cases "x = c")
    case True
    then show ?thesis using Cons split_nonempty [of c s] by (cases "split c s") auto
  next
    case False
    then show ?thesis using Cons split_nonempty [of c s]
      by (cases "split c s"; cases "tl (split c s)") auto
  qed
qed

lemma split_below:
  "segments \<noteq> [] \<Longrightarrow> \<forall>name \<in> set segments. path_sep \<notin> set name \<Longrightarrow>
   split path_sep (below [] segments) = [] # segments"
proof (induction segments rule: rev_induct)
  case Nil
  then show ?case by simp
next
  case (snoc name segments)
  show ?case
  proof (cases "segments = []")
    case True
    then show ?thesis using snoc.prems by (simp add: below_def split_no_sep)
  next
    case False
    have "below [] (segments @ [name]) = below [] segments @ path_sep # name"
      by (simp add: below_def)
    then show ?thesis
      using snoc False by (simp add: split_snoc)
  qed
qed

lemma walk_subdirectories:
  "(\<forall>segments \<in> set (subdirectories entries). \<forall>name \<in> set segments. name \<noteq> []) \<longrightarrow>
     walkDir start entries = start # map (below start) (subdirectories entries)"
  "(\<forall>segments \<in> set (subdirectories entries). \<forall>name \<in> set segments. name \<noteq> []) \<longrightarrow>
     walkEntries start entries = map (below start) (subdirectories entries)"
proof (induction start entries and start entries rule: walkDir_walkEntries.induct)
  case (4 start name sub entries)
  have b: "below (path_join start name) segs = below start (name # segs)" if "name \<noteq> []" for segs
    using that by (simp add: below_def path_join_def)
  show ?case
  proof
    assume a: "\<forall>segments\<in>set (subdirectories ((name, Dir sub) # entries)). \<forall>name\<in>set segments. name \<noteq> []"
    then have n: "name \<noteq> []" by simp
    have s: "\<forall>segments\<in>set (subdirectories sub). \<forall>name\<in>set segments. name \<noteq> []"
    proof (intro ballI)
      fix segments n
      assume "segments \<in> set (subdirectories sub)" and "n \<in> set segments"
      then have "name # segments \<in> set (subdirectories ((name, Dir sub) # entries))"
        and "n \<in> set (name # segments)" by simp_all
      with a show "n \<noteq> []" by blast
    qed
    from a have e: "\<forall>segments\<in>set (subdirectories entries). \<forall>name\<in>set segments. name \<noteq> []"
      by auto
    show "walkEntries start ((name, Dir sub) # entries) =
            map (below start) (subdirectories ((name, Dir sub) # entries))"
      using 4 s e n by (simp add: b [OF n] o_def) (simp add: below_def path_join_def)
  qed
qed auto


lemma toUpperCase_methods:
  "m \<in> set [''GET'', ''POST'', ''PUT'', ''PATCH'', ''DELETE''] \<Longrightarrow> toUpperCase m = m"
  by (auto simp: toUpperCase_def Let_def)

lemma promise_all_Resolved: "promise_all (map (\<lambda>x. Resolved (f x)) xs) = Resolved (map f xs)"
  by (induction xs) auto

lemma join_Cons: "join c (p # xs) = p @ concat (map ((#) c) xs)"
  by (induction xs arbitrary: p) auto

lemma endpointOfDirectory_below:
  assumes "segments \<noteq> []" and "\<forall>name \<in> set segments. path_sep \<notin> set name"
  shows "endpointOfDirectory root (below root segments) =
           (if last segments \<in> set [''GET'', ''POST'', ''PUT'', ''PATCH'', ''DELETE'']
            then Some (below [] (butlast segments), last segments) else None)"
proof -
  have d: "drop (length root) (below root segments) = below [] segments"
    by (simp add: below_def)
  have j: "join CHR ''/'' ([] # xs) = below [] xs" for xs
    by (simp add: join_Cons below_def path_sep_def)
  show ?thesis
    using assms by (simp add: endpointOfDirectory_def d split_below Let_def j)
qed

lemma endpointOfDirectory_root: "endpointOfDirectory root root = None"
  by (simp add: endpointOfDirectory_def)


lemma subdirectories_nonempty: "segments \<in> set (subdirectories entries) \<Longrightarrow> segments \<noteq> []"
  by (induction entries rule: subdirectories.induct) auto

lemma map_filter_map:
  "\<forall>x \<in> set xs. f (h x) = (if P x then Some (g x) else None) \<Longrightarrow>
   List.map_filter f (map h xs) = map g (filter P xs)"
  by (induction xs) (simp_all add: List.map_filter_simps)

lemma loadEndpoint_resolves:
  assumes hooks: "\<forall>p \<in> set (lager_plugins env).
                    hookOf p ''beforeEndpointLoad'' = None \<and> hookOf p ''afterEndpointLoad'' = None"
    and segs: "segments \<noteq> []"
    and m: "last segments \<in> set [''GET'', ''POST'', ''PUT'', ''PATCH'', ''DELETE'']"
    and spec: "mergeSpecsFiles (require_spec env) root (below [] segments) = Returns spec"
  shows "loadEndpoint env root (below [] (butlast segments)) (last segments) =
           Resolved (HEndpoint (newEndpoint env spec (below [] (butlast segments)) (last segments)))"
proof -
  have f: "fire (lager_plugins env) ''beforeEndpointLoad'' args = Resolved args"
    "fire (lager_plugins env) ''afterEndpointLoad'' args = Resolved args" for args
    using hooks by (simp_all add: fire_no_hook)
  have u: "toUpperCase (last segments) = last segments"
    using m by (rule toUpperCase_methods)
  have j: "join path_sep (split CHR ''/'' (below [] (butlast segments))) = below [] (butlast segments)"
    by (simp add: path_sep_def join_split)
  have "below [] (butlast segments @ [last segments])
          = below [] (butlast segments) @ path_sep # last segments"
    by (simp add: below_def)
  then have b: "below [] (butlast segments) @ path_sep # last segments = below [] segments"
    using segs by simp
  show ?thesis
    using spec by (simp add: loadEndpoint_def Let_def f u j b argument_def)
qed



text \<open>
  C5. When the project has no \<open>apis\<close> directory, \<open>loadApis\<close> resolves to the empty list, and
  when it has no \<open>endpoints\<close> directory, \<open>loadEndpoints\<close> resolves to the empty list: the
  \<open>ENOENT\<close> error of the missing root is caught and not reported. (The hooks
  \<open>beforeApisLoad\<close> and \<open>beforeEndpointsLoad\<close> run before the directory is read; they
  are taken to resolve.)
\<close>

theorem load_missing_root_is_empty:
  "(map_of (project env) ''apis'' = None \<and>
    (\<exists>args. fire (lager_plugins env) ''beforeApisLoad'' [] = Resolved args) \<longrightarrow>
      loadApis env = Resolved (HArray [])) \<and>
   (map_of (project env) ''endpoints'' = None \<and>
    (\<exists>args. fire (lager_plugins env) ''beforeEndpointsLoad'' [] = Resolved args) \<longrightarrow>
      loadEndpoints env = Resolved (HArray []))"
  using loadApis_missing loadEndpoints_missing by blast

theorem load_missing_root_is_empty_witness:
  "map_of (project empty_gateway) ''apis'' = None \<and>
   map_of (project empty_gateway) ''endpoints'' = None \<and>
   loadApis empty_gateway = Resolved (HArray []) \<and>
   loadEndpoints empty_gateway = Resolved (HArray [])"
proof -
  have a: "map_of (project empty_gateway) ''apis'' = None"
    and e: "map_of (project empty_gateway) ''endpoints'' = None"
    by (simp_all add: empty_gateway_def users_gateway_def)
  have f: "fire (lager_plugins empty_gateway) eventName [] = Resolved []" for eventName
    by (simp add: empty_gateway_def users_gateway_def fire_def callPluginsSequencialy.simps)
  from f have fa: "\<exists>args. fire (lager_plugins empty_gateway) ''beforeApisLoad'' [] = Resolved args"
    and fe: "\<exists>args. fire (lager_plugins empty_gateway) ''beforeEndpointsLoad'' [] = Resolved args"
    by blast+
  note t = load_missing_root_is_empty [of empty_gateway]
  show ?thesis
    using a e t [THEN conjunct1, rule_format, OF conjI [OF a fa]]
      t [THEN conjunct2, rule_format, OF conjI [OF e fe]]
    by (intro conjI)
qed

text \<open>What \<open>loadEndpoints\<close> resolves to in the example project.\<close>

lemma users_gateway_endpoints:
  "loadEndpoints users_gateway =
     Resolved (HArray
       [HEndpoint (mergeObject users_spec users_GET_spec, ''/users'', ''GET''),
        HEndpoint (users_spec, ''/users/{id}'', ''DELETE'')])"
  by (simp add: loadEndpoints_def users_gateway_def users_project_def users_endpoints_def
      walkSync_def path_join_def path_sep_def endpointOfDirectory_def List.map_filter_simps
      loadEndpoint_def fire_def callPluginsSequencialy.simps toUpperCase_def mergeSpecsFiles_def
      two_levels_def moduleNotFound_def argument_def Let_def users_spec_def users_GET_spec_def)

text \<open>
  C6, as the claim states it, fails on \<open>OPTIONS\<close> (and \<open>ANY\<close>): the example project has the
  directory \<open>endpoints/users/OPTIONS\<close>, the callback of the walk returns without loading
  it, and \<open>loadEndpoints\<close> resolves to the endpoints of \<open>users/GET\<close> and
  \<open>users/{id}/DELETE\<close> only.
\<close>

theorem loadEndpoints_skips_OPTIONS:
  "[''users'', ''OPTIONS''] \<in> set (subdirectories users_endpoints) \<and>
   endpointOfDirectory ''/project/endpoints'' ''/project/endpoints/users/OPTIONS'' = None \<and>
   loadEndpoints users_gateway =
     Resolved (HArray
       [HEndpoint (mergeObject users_spec users_GET_spec, ''/users'', ''GET''),
        HEndpoint (users_spec, ''/users/{id}'', ''DELETE'')])"
  by (simp add: users_gateway_endpoints)
    (simp add: users_endpoints_def endpointOfDirectory_def path_sep_def Let_def)

text \<open>
  C6, amended: the set of the methods is \<open>{GET, POST, PUT, PATCH, DELETE}\<close>. For an
  \<open>endpoints\<close> directory whose entries have proper names, the walk of \<open>loadEndpoints\<close>
  visits the root and every directory below it once; its callback loads an endpoint for
  exactly the directories whose last segment is one of \<open>GET\<close>, \<open>POST\<close>, \<open>PUT\<close>, \<open>PATCH\<close>,
  \<open>DELETE\<close>, with the segments before it as the resource path, and skips every other
  directory and the root. When no plugin implements a hook for one of the four events
  fired on the way (\<open>beforeEndpointsLoad\<close>, \<open>beforeEndpointLoad\<close>, \<open>afterEndpointLoad\<close>,
  \<open>afterEndpointsLoad\<close>; hooks for other events do not matter) and the merge of the
  specifications returns for every one of these method directories (the specifications
  of the directories that are skipped are not read), \<open>loadEndpoints\<close> resolves to one
  endpoint for each method directory, in the order of the walk, built from the
  specification merged along the path of the directory.
\<close>

theorem loadEndpoints_method_directories:
  assumes root: "map_of (project env) ''endpoints'' = Some (Dir entries)"
    and names: "\<forall>segments \<in> set (subdirectories entries). \<forall>name \<in> set segments. entryName name"
  shows "walkSync (map_of (project env) ''endpoints'') (endpointsRoot env)
           = Returns (endpointsRoot env # map (below (endpointsRoot env)) (subdirectories entries)) \<and>
         endpointOfDirectory (endpointsRoot env) (endpointsRoot env) = None \<and>
         (\<forall>segments \<in> set (subdirectories entries).
            endpointOfDirectory (endpointsRoot env) (below (endpointsRoot env) segments)
              = (if last segments \<in> set [''GET'', ''POST'', ''PUT'', ''PATCH'', ''DELETE'']
                 then Some (below [] (butlast segments), last segments) else None)) \<and>
         ((\<forall>p \<in> set (lager_plugins env).
             \<forall>eventName \<in> set [''beforeEndpointsLoad'', ''beforeEndpointLoad'',
                                 ''afterEndpointLoad'', ''afterEndpointsLoad''].
               hookOf p eventName = None) \<and>
          (\<forall>segments \<in> set (subdirectories entries).
             last segments \<in> set [''GET'', ''POST'', ''PUT'', ''PATCH'', ''DELETE''] \<longrightarrow>
             (\<exists>spec. mergeSpecsFiles (require_spec env) (endpointsRoot env) (below [] segments)
                      = Returns spec)) \<longrightarrow>
          loadEndpoints env =
            Resolved (HArray
              (map (\<lambda>segments.
                      HEndpoint (newEndpoint env
                        (specOf env (endpointsRoot env) (below [] segments))
                        (below [] (butlast segments)) (last segments)))
                 (filter (\<lambda>segments. last segments \<in> set [''GET'', ''POST'', ''PUT'', ''PATCH'', ''DELETE''])
                    (subdirectories entries)))))"
proof (intro conjI impI)
  let ?R = "endpointsRoot env"
  let ?M = "\<lambda>segments. last segments \<in> set [''GET'', ''POST'', ''PUT'', ''PATCH'', ''DELETE'']"
  have ne: "\<forall>segments \<in> set (subdirectories entries). \<forall>name \<in> set segments. name \<noteq> []"
    using names by (simp add: entryName_def)
  have ns: "\<forall>segments \<in> set (subdirectories entries). \<forall>name \<in> set segments. path_sep \<notin> set name"
    using names by (simp add: entryName_def)
  show walk: "walkSync (map_of (project env) ''endpoints'') ?R
                = Returns (?R # map (below ?R) (subdirectories entries))"
    using root walk_subdirectories(1) [of entries ?R] ne by (simp add: walkSync_def)
  show "endpointOfDirectory ?R ?R = None"
    by (rule endpointOfDirectory_root)
  show each: "\<forall>segments \<in> set (subdirectories entries).
          endpointOfDirectory ?R (below ?R segments)
            = (if ?M segments then Some (below [] (butlast segments), last segments) else None)"
  proof
    fix segments
    assume s: "segments \<in> set (subdirectories entries)"
    from s have "segments \<noteq> []" by (rule subdirectories_nonempty)
    moreover from s ns have "\<forall>name \<in> set segments. path_sep \<notin> set name" by blast
    ultimately show "endpointOfDirectory ?R (below ?R segments)
            = (if ?M segments then Some (below [] (butlast segments), last segments) else None)"
      by (rule endpointOfDirectory_below)
  qed
  assume a: "(\<forall>p \<in> set (lager_plugins env).
             \<forall>eventName \<in> set [''beforeEndpointsLoad'', ''beforeEndpointLoad'',
                                 ''afterEndpointLoad'', ''afterEndpointsLoad''].
               hookOf p eventName = None) \<and>
          (\<forall>segments \<in> set (subdirectories entries).
             ?M segments \<longrightarrow>
             (\<exists>spec. mergeSpecsFiles (require_spec env) ?R (below [] segments) = Returns spec))"
  then have hooks: "\<forall>p \<in> set (lager_plugins env).
             \<forall>eventName \<in> set [''beforeEndpointsLoad'', ''beforeEndpointLoad'',
                                 ''afterEndpointLoad'', ''afterEndpointsLoad''].
               hookOf p eventName = None"
    and specs: "\<forall>segments \<in> set (subdirectories entries).
             ?M segments \<longrightarrow>
             (\<exists>spec. mergeSpecsFiles (require_spec env) ?R (below [] segments) = Returns spec)"
    by blast+
  have one: "\<forall>p \<in> set (lager_plugins env).
               hookOf p ''beforeEndpointLoad'' = None \<and> hookOf p ''afterEndpointLoad'' = None"
    using hooks by simp
  have f: "fire (lager_plugins env) ''beforeEndpointsLoad'' args = Resolved args"
    "fire (lager_plugins env) ''afterEndpointsLoad'' args = Resolved args" for args
    using hooks by (simp_all add: fire_no_hook)
  let ?E = "\<lambda>segments. HEndpoint (newEndpoint env (specOf env ?R (below [] segments))
                        (below [] (butlast segments)) (last segments))"
  have found: "List.map_filter (endpointOfDirectory ?R) (?R # map (below ?R) (subdirectories entries))
                 = map (\<lambda>segments. (below [] (butlast segments), last segments))
                     (filter ?M (subdirectories entries))"
    using map_filter_map [of "subdirectories entries" "endpointOfDirectory ?R" "below ?R" ?M
        "\<lambda>segments. (below [] (butlast segments), last segments)", OF each]
    by (simp add: List.map_filter_simps endpointOfDirectory_root)
  have each_loaded: "loadEndpoint env ?R (below [] (butlast segments)) (last segments)
                       = Resolved (?E segments)"
    if s: "segments \<in> set (subdirectories entries)" and m: "?M segments" for segments
  proof -
    from s m specs obtain spec where
      spec: "mergeSpecsFiles (require_spec env) ?R (below [] segments) = Returns spec" by blast
    from s have n: "segments \<noteq> []" by (rule subdirectories_nonempty)
    show ?thesis
      using loadEndpoint_resolves [OF one n m spec] spec by (simp add: specOf_def)
  qed
  have loaded: "map (\<lambda>(resourcePath, method). loadEndpoint env ?R resourcePath method)
                  (map (\<lambda>segments. (below [] (butlast segments), last segments))
                     (filter ?M (subdirectories entries)))
                = map (\<lambda>segments. Resolved (?E segments)) (filter ?M (subdirectories entries))"
    unfolding map_map o_def by (rule map_cong [OF refl]) (simp add: each_loaded)
  have chain: "promise_all
                 (map (\<lambda>(resourcePath, method). loadEndpoint env ?R resourcePath method)
                    (List.map_filter (endpointOfDirectory ?R)
                       (?R # map (below ?R) (subdirectories entries))))
               = Resolved (map ?E (filter ?M (subdirectories entries)))"
    unfolding found loaded by (rule promise_all_Resolved)
  show "loadEndpoints env = Resolved (HArray (map ?E (filter ?M (subdirectories entries))))"
    apply (simp only: loadEndpoints_def Let_def flip: endpointsRoot_def)
    apply (simp only: f promise.case walk result.case chain)
    apply (simp add: argument_def)
    done
qed

text \<open>
  The witness is the project of a run of the command line: the api-gateway plugin is
  registered with its hook for \<open>registerCommands\<close>, and the specification of the skipped
  directory \<open>users/OPTIONS\<close> does not parse.
\<close>

theorem loadEndpoints_method_directories_witness:
  "map_of (project cli_gateway) ''endpoints'' = Some (Dir users_endpoints) \<and>
   hookOf api_gateway_plugin ''registerCommands'' \<noteq> (None :: (document \<times> string \<times> string, document) hookval hook option) \<and>
   mergeSpecsFiles (require_spec cli_gateway) ''/project/endpoints'' ''/users/OPTIONS'' = Throws syntaxError \<and>
   endpointOfDirectory ''/project/endpoints'' ''/project/endpoints/users/GET'' = Some (''/users'', ''GET'') \<and>
   endpointOfDirectory ''/project/endpoints'' ''/project/endpoints/users/OPTIONS'' = None \<and>
   endpointOfDirectory ''/project/endpoints'' ''/project/endpoints/users'' = None \<and>
   loadEndpoints cli_gateway =
     Resolved (HArray
       [HEndpoint (mergeObject users_spec users_GET_spec, ''/users'', ''GET''),
        HEndpoint (users_spec, ''/users/{id}'', ''DELETE'')])"
proof -
  have root: "map_of (project cli_gateway) ''endpoints'' = Some (Dir users_endpoints)"
    by (simp add: cli_gateway_def users_gateway_def users_project_def)
  have subs: "subdirectories users_endpoints =
                [[''users''], [''users'', ''GET''], [''users'', ''OPTIONS''], [''users'', ''{id}''],
                 [''users'', ''{id}'', ''DELETE'']]"
    by (simp add: users_endpoints_def)
  have names: "\<forall>segments \<in> set (subdirectories users_endpoints). \<forall>name \<in> set segments. entryName name"
    by (simp add: subs entryName_def path_sep_def)
  have hooks: "\<forall>p \<in> set (lager_plugins cli_gateway).
                 \<forall>eventName \<in> set [''beforeEndpointsLoad'', ''beforeEndpointLoad'',
                                     ''afterEndpointLoad'', ''afterEndpointsLoad''].
                   hookOf p eventName = None"
    by (simp add: cli_gateway_def users_gateway_def api_gateway_plugin_def hookOf_def)
  have registers: "hookOf api_gateway_plugin ''registerCommands''
                     \<noteq> (None :: (document \<times> string \<times> string, document) hookval hook option)"
    by (simp add: api_gateway_plugin_def hookOf_def)
  have r: "endpointsRoot cli_gateway = ''/project/endpoints''"
    by (simp add: endpointsRoot_def cli_gateway_def users_gateway_def path_join_def path_sep_def)
  have b: "below [] [''users'', ''GET''] = ''/users/GET''"
    "below [] [''users'', ''{id}'', ''DELETE''] = ''/users/{id}/DELETE''"
    "below [] [''users''] = ''/users''" "below [] [''users'', ''{id}''] = ''/users/{id}''"
    "below ''/project/endpoints'' [''users'', ''GET''] = ''/project/endpoints/users/GET''"
    "below ''/project/endpoints'' [''users'', ''OPTIONS''] = ''/project/endpoints/users/OPTIONS''"
    "below ''/project/endpoints'' [''users''] = ''/project/endpoints/users''"
    by (simp_all add: below_def path_sep_def)
  have merged: "mergeSpecsFiles (require_spec cli_gateway) ''/project/endpoints'' ''/users/GET''
                  = Returns (mergeObject users_spec users_GET_spec)"
    "mergeSpecsFiles (require_spec cli_gateway) ''/project/endpoints'' ''/users/{id}/DELETE''
                  = Returns users_spec"
    "mergeSpecsFiles (require_spec cli_gateway) ''/project/endpoints'' ''/users/OPTIONS''
                  = Throws syntaxError"
    by (simp_all add: cli_gateway_def users_gateway_def malformed_OPTIONS_spec_def
        mergeSpecsFiles_def two_levels_def moduleNotFound_def syntaxError_def path_join_def
        path_sep_def users_spec_def users_GET_spec_def Let_def)
  have specs: "\<forall>segments \<in> set (subdirectories users_endpoints).
                 last segments \<in> set [''GET'', ''POST'', ''PUT'', ''PATCH'', ''DELETE''] \<longrightarrow>
                 (\<exists>spec. mergeSpecsFiles (require_spec cli_gateway) (endpointsRoot cli_gateway)
                          (below [] segments) = Returns spec)"
    by (simp add: subs r b merged)
  note t = loadEndpoints_method_directories [OF root names]
  note each = t [THEN conjunct2, THEN conjunct2, THEN conjunct1, rule_format]
  have g: "[''users'', ''GET''] \<in> set (subdirectories users_endpoints)"
    and o: "[''users'', ''OPTIONS''] \<in> set (subdirectories users_endpoints)"
    and u: "[''users''] \<in> set (subdirectories users_endpoints)"
    by (simp_all add: subs)
  have new: "newEndpoint cli_gateway spec resourcePath m = (spec, resourcePath, m)"
    for spec resourcePath m
    by (simp add: cli_gateway_def users_gateway_def)
  show ?thesis
    using root registers merged(3) each [OF g] each [OF o] each [OF u]
      t [THEN conjunct2, THEN conjunct2, THEN conjunct2, rule_format, OF conjI [OF hooks specs]]
    by (simp add: subs b r specOf_def merged new)
qed

text \<open>
  C4. \<open>mergeSpecsFiles\<close> throws a load error that is not \<open>MODULE_NOT_FOUND\<close>, but
  \<open>loadEndpoints\<close> does not reject with it: in the example the file \<open>users/GET/spec.json\<close>
  does not parse, \<open>mergeSpecsFiles\<close> throws the \<open>SyntaxError\<close>, and \<open>loadEndpoints\<close>
  resolves to \<open>undefined\<close>, because its \<open>catch\<close> handler calls \<open>Promise.reject(e)\<close> without
  returning it.
\<close>

theorem loadEndpoints_swallows_load_error:
  "mergeSpecsFiles (require_spec malformed_gateway) ''/project/endpoints'' ''/users/GET''
     = Throws syntaxError \<and>
   err_code syntaxError \<noteq> Some ''MODULE_NOT_FOUND'' \<and>
   loadEndpoints malformed_gateway = Resolved HUndefined"
  by (simp add: loadEndpoints_def malformed_gateway_def malformed_spec_def users_gateway_def
      users_project_def users_endpoints_def walkSync_def path_join_def path_sep_def
      endpointOfDirectory_def List.map_filter_simps loadEndpoint_def fire_def
      callPluginsSequencialy.simps toUpperCase_def mergeSpecsFiles_def two_levels_def
      moduleNotFound_def syntaxError_def argument_def onLoadEndpointsRejected_def Let_def
      users_spec_def)


section \<open>Theorems: deploying a Lambda\<close>

lemma update_calls:
  "CreateFunction m \<notin> set (fst (Lambda_update awsLambda this context))"
  by (auto simp: Lambda_update_def andThen_def both_def Let_def split: promise.splits prod.splits)

lemma create_calls:
  "UpdateFunctionCode m \<notin> set (fst (Lambda_create awsLambda this context)) \<and>
   UpdateFunctionConfiguration m \<notin> set (fst (Lambda_create awsLambda this context))"
  by (auto simp: Lambda_create_def andThen_def both_def Let_def split: promise.splits prod.splits)

lemma setAlias_calls:
  "CreateFunction m \<notin> set (fst (Lambda_setAlias awsLambda this alias r)) \<and>
   UpdateFunctionCode m \<notin> set (fst (Lambda_setAlias awsLambda this alias r)) \<and>
   UpdateFunctionConfiguration m \<notin> set (fst (Lambda_setAlias awsLambda this alias r))"
  by (auto simp: Lambda_setAlias_def Lambda_aliasExists_def andThen_def Let_def
      split: promise.splits prod.splits if_splits)

lemma setAlias_operation:
  "snd (Lambda_setAlias awsLambda this alias r) = Resolved r' \<Longrightarrow> operation r' = operation r"
  by (auto simp: Lambda_setAlias_def Lambda_aliasExists_def andThen_def Let_def
      split: promise.splits prod.splits if_splits)

lemma aliasOrArn_calls:
  "CreateFunction m \<notin> set (fst (aliasOrArn awsLambda this context r data)) \<and>
   UpdateFunctionCode m \<notin> set (fst (aliasOrArn awsLambda this context r data)) \<and>
   UpdateFunctionConfiguration m \<notin> set (fst (aliasOrArn awsLambda this context r data))"
  by (simp add: aliasOrArn_def setAlias_calls split: option.splits)

lemma aliasOrArn_operation:
  "snd (aliasOrArn awsLambda this context r data) = Resolved r' \<Longrightarrow> operation r' = operation r"
  by (auto simp: aliasOrArn_def split: option.splits if_splits dest: setAlias_operation)

lemma andThen_fst:
  "fst (andThen p f) = fst p @ (case snd p of Rejected e \<Rightarrow> [] | Resolved v \<Rightarrow> fst (f v))"
  by (cases p; cases "snd p") (auto simp: andThen_def split: prod.splits)

lemma andThen_snd:
  "snd (andThen p f) = (case snd p of Rejected e \<Rightarrow> Rejected e | Resolved v \<Rightarrow> snd (f v))"
  by (cases p; cases "snd p") (auto simp: andThen_def split: prod.splits)


lemma named_FunctionName:
  "FunctionName (lambda_params (withFunctionName context this)) = deployedName context this"
  by (simp add: withFunctionName_def)

lemma update_requests:
  assumes "buildPackage awsLambda this = Resolved buffer"
  shows "\<exists>rest. fst (Lambda_update awsLambda this context)
                 = UpdateFunctionCode (FunctionName (lambda_params this)) # rest"
  using assms
  by (auto simp: Lambda_update_def andThen_def both_def Let_def split: promise.splits prod.splits)

lemma update_all:
  assumes "buildPackage awsLambda this = Resolved buffer"
    and "updateFunctionCode awsLambda (FunctionName (lambda_params this))
           (Publish (lambda_params this)) buffer = Resolved code"
    and "retrieveRoleArn awsLambda (Role (lambda_params this)) context = Resolved roleArn"
  shows "Lambda_update awsLambda this context =
           ([UpdateFunctionCode (FunctionName (lambda_params this)),
             UpdateFunctionConfiguration (FunctionName (lambda_params this))],
            updateFunctionConfiguration awsLambda ((lambda_params this)\<lparr>Role := roleArn\<rparr>))"
  using assms by (simp add: Lambda_update_def andThen_def both_def Let_def)

lemma create_all:
  assumes "buildPackage awsLambda this = Resolved buffer"
    and "retrieveRoleArn awsLambda (Role (lambda_params this)) context = Resolved roleArn"
  shows "Lambda_create awsLambda this context =
           ([CreateFunction (FunctionName (lambda_params this))],
            createFunction awsLambda ((lambda_params this)\<lparr>Role := roleArn\<rparr>) buffer)"
  using assms by (simp add: Lambda_create_def andThen_def both_def Let_def)


text \<open>
  C7. With \<open>functionName\<close> the name the Lambda is deployed under and \<open>params\<close> its
  parameters under that name.

  \<^item> The existence check resolves to \<open>false\<close> exactly when the provider answers the lookup
    with a \<open>ResourceNotFoundException\<close>; a lookup that succeeds resolves it to \<open>true\<close>; any
    other error of the lookup is propagated, by the check and by the deployment, which
    sends no other request.

  \<^item> When the function exists: the deployment never sends \<open>createFunction\<close>, and every
    report it resolves to has the operation \<open>Update\<close>. Once the package is built, the
    request after the lookup is \<open>updateFunctionCode\<close>; when the provider accepts the code
    and the role is resolved, the next one is \<open>updateFunctionConfiguration\<close>, sent with
    the parameters of the Lambda and the resolved role; and when the provider accepts the
    configuration (and no alias is asked for) these three are all the requests, and the
    deployment resolves to the report of an \<open>Update\<close> with the ARN the provider answered:
    no error comes from the function being there already.

  \<^item> When the function does not exist: the deployment sends none of the requests of an
    update, and every report it resolves to has the operation \<open>Creation\<close>. Once the package
    is built and the role resolved, the request after the lookup is \<open>createFunction\<close>,
    sent with the parameters of the Lambda, the resolved role and the package; when the
    provider accepts it (and no alias is asked for) these two are all the requests, and
    the deployment resolves to the report of a \<open>Creation\<close> with the ARN the provider
    answered.
\<close>

theorem lambda_deploy_create_or_update:
  assumes n: "functionName = deployedName context this"
    and t: "named = withFunctionName context this"
    and p: "params = lambda_params named"
  shows
    "(snd (Lambda_isDeployed awsLambda functionName) = Resolved False \<longleftrightarrow>
        (\<exists>e. getFunction awsLambda functionName = Rejected e \<and>
             err_code e = Some ''ResourceNotFoundException'')) \<and>
     (\<forall>r. getFunction awsLambda functionName = Resolved r \<longrightarrow>
        snd (Lambda_isDeployed awsLambda functionName) = Resolved True \<and>
        (\<forall>m. CreateFunction m \<notin> set (fst (Lambda_deploy awsLambda this region context))) \<and>
        (\<forall>rep. snd (Lambda_deploy awsLambda this region context) = Resolved rep \<longrightarrow>
           operation rep = Some ''Update'') \<and>
        (\<forall>buffer. buildPackage awsLambda named = Resolved buffer \<longrightarrow>
           (\<exists>rest. fst (Lambda_deploy awsLambda this region context)
                     = [GetFunction functionName, UpdateFunctionCode functionName] @ rest)) \<and>
        (\<forall>buffer code roleArn.
           buildPackage awsLambda named = Resolved buffer \<and>
           updateFunctionCode awsLambda functionName (Publish params) buffer = Resolved code \<and>
           retrieveRoleArn awsLambda (Role params) context = Resolved roleArn \<longrightarrow>
           (\<exists>rest. fst (Lambda_deploy awsLambda this region context)
                     = [GetFunction functionName, UpdateFunctionCode functionName,
                        UpdateFunctionConfiguration functionName] @ rest) \<and>
           (\<forall>data. updateFunctionConfiguration awsLambda (params\<lparr>Role := roleArn\<rparr>) = Resolved data \<and>
              \<not> truthy (ctx_stage context) \<longrightarrow>
              Lambda_deploy awsLambda this region context =
                ([GetFunction functionName, UpdateFunctionCode functionName,
                  UpdateFunctionConfiguration functionName],
                 Resolved \<lparr>report_name = functionName, operation = Some ''Update'',
                            arn = Some (FunctionArn data), publishedVersion = None,
                            aliasExisted = None\<rparr>)))) \<and>
     (\<forall>e. getFunction awsLambda functionName = Rejected e \<and>
          err_code e = Some ''ResourceNotFoundException'' \<longrightarrow>
        (\<forall>m. UpdateFunctionCode m \<notin> set (fst (Lambda_deploy awsLambda this region context)) \<and>
             UpdateFunctionConfiguration m \<notin> set (fst (Lambda_deploy awsLambda this region context))) \<and>
        (\<forall>rep. snd (Lambda_deploy awsLambda this region context) = Resolved rep \<longrightarrow>
           operation rep = Some ''Creation'') \<and>
        (\<forall>buffer roleArn.
           buildPackage awsLambda named = Resolved buffer \<and>
           retrieveRoleArn awsLambda (Role params) context = Resolved roleArn \<longrightarrow>
           (\<exists>rest. fst (Lambda_deploy awsLambda this region context)
                     = [GetFunction functionName, CreateFunction functionName] @ rest) \<and>
           (\<forall>data. createFunction awsLambda (params\<lparr>Role := roleArn\<rparr>) buffer = Resolved data \<and>
              \<not> truthy (ctx_stage context) \<longrightarrow>
              Lambda_deploy awsLambda this region context =
                ([GetFunction functionName, CreateFunction functionName],
                 Resolved \<lparr>report_name = functionName, operation = Some ''Creation'',
                            arn = Some (FunctionArn data), publishedVersion = None,
                            aliasExisted = None\<rparr>)))) \<and>
     (\<forall>e. getFunction awsLambda functionName = Rejected e \<and>
          err_code e \<noteq> Some ''ResourceNotFoundException'' \<longrightarrow>
        snd (Lambda_isDeployed awsLambda functionName) = Rejected e \<and>
        Lambda_deploy awsLambda this region context = ([GetFunction functionName], Rejected e))"
proof (intro conjI allI impI)
  have fn: "FunctionName (lambda_params named) = functionName"
    by (simp add: t n named_FunctionName)
  have plain: "aliasOrArn awsLambda named context rep data
                 = ([], Resolved (rep\<lparr>arn := Some (FunctionArn data)\<rparr>))"
    if "\<not> truthy (ctx_stage context)" for rep data
    using that by (cases "ctx_stage context") (simp_all add: aliasOrArn_def)
  show "snd (Lambda_isDeployed awsLambda functionName) = Resolved False \<longleftrightarrow>
        (\<exists>e. getFunction awsLambda functionName = Rejected e \<and>
             err_code e = Some ''ResourceNotFoundException'')"
    by (auto simp: Lambda_isDeployed_def split: promise.splits)
  {
    fix r
    assume g: "getFunction awsLambda functionName = Resolved r"
    have d: "Lambda_deploy awsLambda this region context =
               andThen ([GetFunction functionName], Resolved True)
                 (\<lambda>deployed. andThen (Lambda_update awsLambda named context)
                    (aliasOrArn awsLambda named context
                       \<lparr>report_name = functionName, operation = Some ''Update'', arn = None,
                        publishedVersion = None, aliasExisted = None\<rparr>))"
      using g by (simp add: Lambda_deploy_def Lambda_isDeployed_def Let_def andThen_def n t)
    show "snd (Lambda_isDeployed awsLambda functionName) = Resolved True"
      using g by (simp add: Lambda_isDeployed_def)
    show "CreateFunction m \<notin> set (fst (Lambda_deploy awsLambda this region context))" for m
      by (simp add: d andThen_fst update_calls aliasOrArn_calls split: promise.splits)
    show "operation rep = Some ''Update''"
      if "snd (Lambda_deploy awsLambda this region context) = Resolved rep" for rep
      using that by (auto simp: d andThen_snd split: promise.splits dest: aliasOrArn_operation)
    show "\<exists>rest. fst (Lambda_deploy awsLambda this region context)
                   = [GetFunction functionName, UpdateFunctionCode functionName] @ rest"
      if b: "buildPackage awsLambda named = Resolved buffer" for buffer
    proof -
      from update_requests [OF b, of "context"] obtain rest where
        "fst (Lambda_update awsLambda named context) = UpdateFunctionCode functionName # rest"
        by (auto simp: fn)
      then show ?thesis by (simp add: d andThen_fst)
    qed
    {
      fix buffer code roleArn
      assume a: "buildPackage awsLambda named = Resolved buffer \<and>
           updateFunctionCode awsLambda functionName (Publish params) buffer = Resolved code \<and>
           retrieveRoleArn awsLambda (Role params) context = Resolved roleArn"
      have u: "Lambda_update awsLambda named context =
                 ([UpdateFunctionCode functionName, UpdateFunctionConfiguration functionName],
                  updateFunctionConfiguration awsLambda (params\<lparr>Role := roleArn\<rparr>))"
        using update_all [of awsLambda named buffer code "context" roleArn] a by (simp add: fn p)
      show "\<exists>rest. fst (Lambda_deploy awsLambda this region context)
                     = [GetFunction functionName, UpdateFunctionCode functionName,
                        UpdateFunctionConfiguration functionName] @ rest"
        by (simp add: d andThen_fst u)
      show "Lambda_deploy awsLambda this region context =
                ([GetFunction functionName, UpdateFunctionCode functionName,
                  UpdateFunctionConfiguration functionName],
                 Resolved \<lparr>report_name = functionName, operation = Some ''Update'',
                            arn = Some (FunctionArn data), publishedVersion = None,
                            aliasExisted = None\<rparr>)"
        if "updateFunctionConfiguration awsLambda (params\<lparr>Role := roleArn\<rparr>) = Resolved data \<and>
              \<not> truthy (ctx_stage context)" for data
        using that by (simp add: d u andThen_def plain)
    }
  }
  {
    fix e
    assume g: "getFunction awsLambda functionName = Rejected e \<and>
               err_code e = Some ''ResourceNotFoundException''"
    have d: "Lambda_deploy awsLambda this region context =
               andThen ([GetFunction functionName], Resolved False)
                 (\<lambda>deployed. andThen (Lambda_create awsLambda named context)
                    (aliasOrArn awsLambda named context
                       \<lparr>report_name = functionName, operation = Some ''Creation'', arn = None,
                        publishedVersion = None, aliasExisted = None\<rparr>))"
      using g by (simp add: Lambda_deploy_def Lambda_isDeployed_def Let_def andThen_def n t)
    show "UpdateFunctionCode m \<notin> set (fst (Lambda_deploy awsLambda this region context))" for m
      by (simp add: d andThen_fst create_calls aliasOrArn_calls split: promise.splits)
    show "UpdateFunctionConfiguration m \<notin> set (fst (Lambda_deploy awsLambda this region context))" for m
      by (simp add: d andThen_fst create_calls aliasOrArn_calls split: promise.splits)
    show "operation rep = Some ''Creation''"
      if "snd (Lambda_deploy awsLambda this region context) = Resolved rep" for rep
      using that by (auto simp: d andThen_snd split: promise.splits dest: aliasOrArn_operation)
    {
      fix buffer roleArn
      assume a: "buildPackage awsLambda named = Resolved buffer \<and>
           retrieveRoleArn awsLambda (Role params) context = Resolved roleArn"
      have c: "Lambda_create awsLambda named context =
                 ([CreateFunction functionName],
                  createFunction awsLambda (params\<lparr>Role := roleArn\<rparr>) buffer)"
        using create_all [of awsLambda named buffer "context" roleArn] a by (simp add: fn p)
      show "\<exists>rest. fst (Lambda_deploy awsLambda this region context)
                     = [GetFunction functionName, CreateFunction functionName] @ rest"
        by (simp add: d andThen_fst c)
      show "Lambda_deploy awsLambda this region context =
                ([GetFunction functionName, CreateFunction functionName],
                 Resolved \<lparr>report_name = functionName, operation = Some ''Creation'',
                            arn = Some (FunctionArn data), publishedVersion = None,
                            aliasExisted = None\<rparr>)"
        if "createFunction awsLambda (params\<lparr>Role := roleArn\<rparr>) buffer = Resolved data \<and>
              \<not> truthy (ctx_stage context)" for data
        using that by (simp add: d c andThen_def plain)
    }
  }
  {
    fix e
    assume g: "getFunction awsLambda functionName = Rejected e \<and>
               err_code e \<noteq> Some ''ResourceNotFoundException''"
    show "snd (Lambda_isDeployed awsLambda functionName) = Rejected e"
      using g by (simp add: Lambda_isDeployed_def)
    show "Lambda_deploy awsLambda this region context = ([GetFunction functionName], Rejected e)"
      using g by (simp add: Lambda_deploy_def Lambda_isDeployed_def Let_def andThen_def n)
  }
qed


theorem lambda_deploy_create_or_update_witness:
  "getFunction existing_provider ''DEV-my-lambda'' = Resolved deployed_configuration \<and>
   Lambda_deploy existing_provider my_lambda ''us-east-1'' dev_context =
     ([GetFunction ''DEV-my-lambda'', UpdateFunctionCode ''DEV-my-lambda'',
       UpdateFunctionConfiguration ''DEV-my-lambda''],
      Resolved \<lparr>report_name = ''DEV-my-lambda'', operation = Some ''Update'',
                 arn = Some ''arn:aws:lambda:us-east-1:012345678901:function:DEV-my-lambda'',
                 publishedVersion = None, aliasExisted = None\<rparr>) \<and>
   getFunction fresh_provider ''DEV-my-lambda'' = Rejected resourceNotFound \<and>
   snd (Lambda_isDeployed fresh_provider ''DEV-my-lambda'') = Resolved False \<and>
   Lambda_deploy fresh_provider my_lambda ''us-east-1'' dev_context =
     ([GetFunction ''DEV-my-lambda'', CreateFunction ''DEV-my-lambda''],
      Resolved \<lparr>report_name = ''DEV-my-lambda'', operation = Some ''Creation'',
                 arn = Some ''arn:aws:lambda:us-east-1:012345678901:function:DEV-my-lambda'',
                 publishedVersion = None, aliasExisted = None\<rparr>) \<and>
   getFunction throttling_provider ''DEV-my-lambda'' = Rejected throttling_error \<and>
   Lambda_deploy throttling_provider my_lambda ''us-east-1'' dev_context
     = ([GetFunction ''DEV-my-lambda''], Rejected throttling_error)"
proof -
  let ?name = "deployedName dev_context my_lambda"
  let ?params = "lambda_params (withFunctionName dev_context my_lambda)"
  let ?role = "''arn:aws:iam::012345678901:role/LambdaBasicExecution''"
  have name: "?name = ''DEV-my-lambda''"
    by (simp add: deployedName_def dev_context_def my_lambda_def)
  have arn: "FunctionArn deployed_configuration
               = ''arn:aws:lambda:us-east-1:012345678901:function:DEV-my-lambda''"
    by (simp add: deployed_configuration_def)
  have g1: "getFunction existing_provider ?name = Resolved deployed_configuration"
    by (simp add: existing_provider_def)
  have up: "buildPackage existing_provider (withFunctionName dev_context my_lambda) = Resolved () \<and>
            updateFunctionCode existing_provider ?name (Publish ?params) ()
              = Resolved deployed_configuration \<and>
            retrieveRoleArn existing_provider (Role ?params) dev_context = Resolved ?role"
    by (simp add: existing_provider_def withFunctionName_def my_lambda_def)
  have cfg: "updateFunctionConfiguration existing_provider (?params\<lparr>Role := ?role\<rparr>)
               = Resolved deployed_configuration \<and> \<not> truthy (ctx_stage dev_context)"
    by (simp add: existing_provider_def dev_context_def)
  have g2: "getFunction fresh_provider ?name = Rejected resourceNotFound \<and>
            err_code resourceNotFound = Some ''ResourceNotFoundException''"
    by (simp add: fresh_provider_def existing_provider_def resourceNotFound_def)
  have cr: "buildPackage fresh_provider (withFunctionName dev_context my_lambda) = Resolved () \<and>
            retrieveRoleArn fresh_provider (Role ?params) dev_context = Resolved ?role"
    by (simp add: fresh_provider_def existing_provider_def withFunctionName_def my_lambda_def)
  have made: "createFunction fresh_provider (?params\<lparr>Role := ?role\<rparr>) ()
                = Resolved deployed_configuration \<and> \<not> truthy (ctx_stage dev_context)"
    by (simp add: fresh_provider_def existing_provider_def dev_context_def)
  have g3: "getFunction throttling_provider ?name = Rejected throttling_error \<and>
            err_code throttling_error \<noteq> Some ''ResourceNotFoundException''"
    by (simp add: throttling_provider_def existing_provider_def throttling_error_def)
  note e = lambda_deploy_create_or_update [OF refl refl refl, of existing_provider dev_context
      my_lambda "''us-east-1''", THEN conjunct2, THEN conjunct1, rule_format, OF g1]
  note f = lambda_deploy_create_or_update [OF refl refl refl, of fresh_provider dev_context
      my_lambda "''us-east-1''"]
  note t = lambda_deploy_create_or_update [OF refl refl refl, of throttling_provider dev_context
      my_lambda "''us-east-1''", THEN conjunct2, THEN conjunct2, THEN conjunct2, rule_format, OF g3]
  have r1: "Lambda_deploy existing_provider my_lambda ''us-east-1'' dev_context =
              ([GetFunction ?name, UpdateFunctionCode ?name, UpdateFunctionConfiguration ?name],
               Resolved \<lparr>report_name = ?name, operation = Some ''Update'',
                          arn = Some (FunctionArn deployed_configuration),
                          publishedVersion = None, aliasExisted = None\<rparr>)"
    using e [THEN conjunct2, THEN conjunct2, THEN conjunct2, THEN conjunct2, rule_format, OF up,
        THEN conjunct2, rule_format, OF cfg] .
  have r2: "snd (Lambda_isDeployed fresh_provider ?name) = Resolved False"
    using f [THEN conjunct1] g2 by blast
  have r3: "Lambda_deploy fresh_provider my_lambda ''us-east-1'' dev_context =
              ([GetFunction ?name, CreateFunction ?name],
               Resolved \<lparr>report_name = ?name, operation = Some ''Creation'',
                          arn = Some (FunctionArn deployed_configuration),
                          publishedVersion = None, aliasExisted = None\<rparr>)"
    using f [THEN conjunct2, THEN conjunct2, THEN conjunct1, rule_format, OF g2,
        THEN conjunct2, THEN conjunct2, rule_format, OF cr, THEN conjunct2, rule_format, OF made] .
  show ?thesis
    using g1 r1 g2 [THEN conjunct1] r2 r3 g3 [THEN conjunct1] t [THEN conjunct2]
    by (simp add: name arn)
qed


section \<open>Theorems: the deploy-apis command\<close>

lemma tableOfResults_success:
  "snd (tableOfResults getIdentifier results rows success) =
     (success \<and> (\<forall>result \<in> set results. \<not> truthy (apiReport_failed (result_report result))))"
  by (induction results arbitrary: rows success) (auto simp: Let_def)

lemma publishedApis_append: "publishedApis (xs @ ys) = publishedApis xs @ publishedApis ys"
  by (induction xs rule: publishedApis.induct) auto

lemma publishedApis_Published: "publishedApis (map Published apis) = apis"
  by (induction apis) auto

text \<open>
  The two branches of the last handler. A report marked failed ends the process with exit code 1
  and nothing is published, whatever \<open>Promise\<close> is. When no report is marked failed, every
  API of the batch is published, in order, when \<open>Promise\<close> is Bluebird; with the built-in
  \<open>Promise\<close> the handler throws before it publishes anything.
\<close>

lemma publishAfterDeployment_branches:
  "((\<exists>result \<in> set results. truthy (apiReport_failed (result_report result))) \<longrightarrow>
      snd (publishAfterDeployment Promise tableToString getIdentifier publish region context apis results)
        = Exits 1 \<and>
      publishedApis (fst (publishAfterDeployment Promise tableToString getIdentifier publish region context
        apis results)) = []) \<and>
   ((\<forall>result \<in> set results. \<not> truthy (apiReport_failed (result_report result))) \<and>
    Promise = Bluebird \<longrightarrow>
      publishedApis (fst (publishAfterDeployment Promise tableToString getIdentifier publish region context
        apis results)) = apis) \<and>
   ((\<forall>result \<in> set results. \<not> truthy (apiReport_failed (result_report result))) \<and>
    Promise = BuiltIn \<longrightarrow>
      snd (publishAfterDeployment Promise tableToString getIdentifier publish region context apis results)
        = Rejects (typeError ''Promise.map is not a function'') \<and>
      publishedApis (fst (publishAfterDeployment Promise tableToString getIdentifier publish region context
        apis results)) = [])"
proof -
  obtain rows success where t: "tableOfResults getIdentifier results [] True = (rows, success)"
    by (cases "tableOfResults getIdentifier results [] True")
  have s: "success = (\<forall>result \<in> set results. \<not> truthy (apiReport_failed (result_report result)))"
    using tableOfResults_success [of getIdentifier results "[]" True] t by simp
  show ?thesis
    by (auto simp: publishAfterDeployment_def t s Let_def publishedApis_append
        publishedApis_Published split: promise.splits)
qed

text \<open>
  The batch of three APIs where the provider rejects the deployment of the second one: the
  notice is printed, no API is published and the process ends with exit code 1, with
  either \<open>Promise\<close>.
\<close>

lemma deployApis_second_fails_exits:
  "snd (deployApis_executeCommand Promise (\<lambda>rows. ''table'') (\<lambda>api. api) deploy_second_fails
          (\<lambda>api region context. Resolved ()) ''us-east-1'' dev_context [''first'', ''second'', ''third''])
     = Exits 1 \<and>
   publishedApis (fst (deployApis_executeCommand Promise (\<lambda>rows. ''table'') (\<lambda>api. api)
          deploy_second_fails (\<lambda>api region context. Resolved ()) ''us-east-1'' dev_context
          [''first'', ''second'', ''third''])) = []"
  by (simp add: deployApis_executeCommand_def publishAfterDeployment_def deploy_second_fails_def
      deployed_report_def failed_report_def Let_def)

text \<open>
  C8. A batch of three APIs whose deployments all succeed, in the module as it is written
  (\<open>Promise\<close> the built-in one): the table is printed, then \<open>Promise.map\<close> throws, the
  command rejects with the \<open>TypeError\<close> and no API is published.
\<close>

theorem deployApis_publishes_nothing:
  "deployApis_executeCommand BuiltIn (\<lambda>rows. ''table'') (\<lambda>api. api) deploy_all_succeed
     (\<lambda>api region context. Resolved ()) ''us-east-1'' dev_context [''first'', ''second'', ''third'']
   = ([Printed ''Deploying first ...'', Printed ''Deploying second ...'',
       Printed ''Deploying third ...'', Printed '''', Printed ''Deployment done'', Printed '''',
       Printed ''table''],
      Rejects (typeError ''Promise.map is not a function''))"
  by (simp add: deployApis_executeCommand_def publishAfterDeployment_def deploy_all_succeed_def
      deployed_report_def Let_def)


section \<open>Theorems: the deploy-lambdas command\<close>

text \<open>
  The \<open>catch\<close> handler of \<open>executeCommand\<close>, on the error \<open>e\<close> the chain before it rejects
  with: when \<open>e\<close> has the code \<open>AccessDeniedException\<close> and a cause with the message \<open>m\<close>,
  the command prints the four lines of the explanation, the third of which is \<open>m\<close>, and
  ends the process with exit code 1; an error that fails the test of the handler is
  rethrown, and nothing more is printed.
\<close>

lemma deployLambdas_catch:
  assumes "deploySelected Promise (withConfigDefaults getConfig parameters) loadLambdas deploy
             genReportsTable = (out, Rejected e)"
  shows "(err_code e = Some ''AccessDeniedException'' \<and> err_cause e = Some c \<and>
          cause_message c = Some m \<and> m \<noteq> [] \<longrightarrow>
            deployLambdas_executeCommand Promise icli getConfig parameters loadLambdas deploy
              genReportsTable
              = (deployBanner icli (withConfigDefaults getConfig parameters) @ out @
                   [nl @ ''    '' @ format_error icli (''Insufficient permissions to perform the action'' @ nl),
                    ''The IAM user/role you are using to perform this action does not have sufficient permissions.'' @ nl,
                    m @ nl,
                    ''Please update the policies of the user/role before trying again.'' @ nl],
                 Exits 1)) \<and>
         (\<not> (err_code e = Some ''AccessDeniedException'' \<and>
             (\<exists>c m. err_cause e = Some c \<and> cause_message c = Some m \<and> m \<noteq> [])) \<longrightarrow>
            deployLambdas_executeCommand Promise icli getConfig parameters loadLambdas deploy
              genReportsTable
              = (deployBanner icli (withConfigDefaults getConfig parameters) @ out, Rejects e))"
proof -
  have a: "isAccessDenied e \<longleftrightarrow>
             err_code e = Some ''AccessDeniedException'' \<and>
             (\<exists>c m. err_cause e = Some c \<and> cause_message c = Some m \<and> m \<noteq> [])"
  proof (cases "err_cause e")
    case None
    then show ?thesis by (simp add: isAccessDenied_def)
  next
    case (Some c)
    then show ?thesis by (cases "cause_message c") (simp_all add: isAccessDenied_def)
  qed
  show ?thesis
    using assms a
    by (auto simp: deployLambdas_executeCommand_def onDeployRejected_def
        permissionsExplanation_def Let_def)
qed

text \<open>
  With the built-in \<open>Promise\<close>, once the Lambdas are loaded the chain rejects with the
  \<open>TypeError\<close> of \<open>Promise.map\<close>, whatever the deployment of a Lambda would do: no Lambda
  is deployed, and the command rejects with the \<open>TypeError\<close>.
\<close>

lemma deployLambdas_BuiltIn:
  "deployLambdas_executeCommand BuiltIn icli getConfig parameters (Resolved lambdas) deploy
     genReportsTable
   = (deployBanner icli (withConfigDefaults getConfig parameters),
      Rejects (typeError ''Promise.map is not a function''))"
  by (simp add: deployLambdas_executeCommand_def deploySelected_def onDeployRejected_def
      isAccessDenied_def typeError_def Let_def)

text \<open>
  With Bluebird bound to \<open>Promise\<close> the command does what the handler is written for: the
  deployment of the selected Lambda rejects with an \<open>AccessDeniedException\<close>, the
  explanation is printed and the process ends with exit code 1; a
  \<open>ThrottlingException\<close> is rethrown.
\<close>

lemma deployLambdas_Bluebird_access_denied:
  "deployLambdas_executeCommand Bluebird plain_icli (\<lambda>k. None) one_lambda_parameters
     (Resolved [(''my-lambda'', ())]) (\<lambda>region context l. Rejected access_denied_error :: unit promise)
     (\<lambda>reports. ''table'')
   = (['''', ''Deploying 1 Lambda(s):'', ''  AWS region: us-east-1'',
       ''  Lager environement (prefix for Lambdas names): DEV'',
       ''  Lager stage (used as Lambda alias): v0'', '''', ''This operation may last a little'',
       nl @ ''    Insufficient permissions to perform the action'' @ nl,
       ''The IAM user/role you are using to perform this action does not have sufficient permissions.'' @ nl,
       ''User is not authorized to perform: lambda:GetFunction'' @ nl,
       ''Please update the policies of the user/role before trying again.'' @ nl],
      Exits 1) \<and>
   deployLambdas_executeCommand Bluebird plain_icli (\<lambda>k. None) one_lambda_parameters
     (Resolved [(''my-lambda'', ())]) (\<lambda>region context l. Rejected throttling_error :: unit promise)
     (\<lambda>reports. ''table'')
   = (['''', ''Deploying 1 Lambda(s):'', ''  AWS region: us-east-1'',
       ''  Lager environement (prefix for Lambdas names): DEV'',
       ''  Lager stage (used as Lambda alias): v0'', '''', ''This operation may last a little''],
      Rejects throttling_error)"
  by (simp add: deployLambdas_executeCommand_def deploySelected_def onDeployRejected_def
      isAccessDenied_def permissionsExplanation_def deployBanner_def withConfigDefaults_def
      one_lambda_parameters_def plain_icli_def access_denied_error_def throttling_error_def
      promise_map_def opt_prim_def decimal.simps Let_def)



section \<open>Theorems: the CORS hook\<close>

text \<open>
  The test of the hook never finds an \<open>OPTIONS\<close> endpoint: when no resource path has a
  configuration of its own, the hook adds one \<open>OPTIONS\<close> endpoint, with the flag set, for
  every resource path of the API, whatever endpoints the API has.
\<close>

lemma addCorsEndpoints_all:
  assumes "\<forall>resourcePath \<in> set resourcePaths.
             \<exists>e. requireCors resourcePath = LoadFails e \<and> err_code e = Some ''MODULE_NOT_FOUND''"
    and "corsSpec toStr baseSpec (apiCorsOf (api_spec api)) = Returns spec"
  shows "addCorsEndpoints cls requireCors toStr baseSpec api resourcePaths calls =
           Returns (calls @ map (\<lambda>resourcePath. (Endpoint cls spec resourcePath ''OPTIONS'', True))
                             resourcePaths)"
  using assms
proof (induction resourcePaths arbitrary: calls)
  case Nil
  then show ?case by simp
next
  case (Cons resourcePath resourcePaths)
  then show ?case
    by (auto simp: functionStrictEqualsString_def Let_def)
qed

text \<open>
  C10. An API that has \<open>GET /users\<close> and its own \<open>OPTIONS /users\<close>: the hook synthesizes
  an \<open>OPTIONS\<close> endpoint for \<open>/users\<close> all the same and hands it to \<open>addEndpoint\<close> with the
  flag set.
\<close>

theorem cors_hook_ignores_existing_OPTIONS:
  "(own_options, ''/users'', ''OPTIONS'') \<in> set (api_endpoints api_with_options) \<and>
   getMethod tuple_endpoints (own_options, ''/users'', ''OPTIONS'') = ''OPTIONS'' \<and>
   afterAddEndpointsToApi tuple_endpoints no_fragments (\<lambda>v. case v of JStr s \<Rightarrow> s | _ \<Rightarrow> [])
     cors_baseSpec api_with_options
   = Returns [((cors_baseSpec, ''/users'', ''OPTIONS''), True)]"
  by (simp add: afterAddEndpointsToApi_def api_with_options_def tuple_endpoints_def uniq_def
      functionStrictEqualsString_def no_fragments_def moduleNotFound_def apiCorsOf_def
      mappingOr_def corsSpec_def cors_baseSpec_def Let_def)
end
